theory Spec2Isabelle
  imports Complex_Main
begin

unbundle bit_operations_syntax

section \<open>JavaScript numbers\<close>

text \<open>
  The program is TypeScript; every coordinate, dimension and setting is a JavaScript
  number. A number is modelled as a real number or one of the three special values
  of IEEE arithmetic. Rounding to 53 bits, overflow to infinity and the negative zero are
  not modelled: the integer coordinates of the DST writer are exact in both.
\<close>

datatype jsnum = Fin real | PInf | NInf | NaN

fun js_isNaN :: "jsnum \<Rightarrow> bool" where
  "js_isNaN NaN = True"
| "js_isNaN _ = False"

fun js_neg :: "jsnum \<Rightarrow> jsnum" where
  "js_neg (Fin a) = Fin (- a)"
| "js_neg PInf = NInf"
| "js_neg NInf = PInf"
| "js_neg NaN = NaN"

fun js_add :: "jsnum \<Rightarrow> jsnum \<Rightarrow> jsnum" where
  "js_add NaN _ = NaN"
| "js_add _ NaN = NaN"
| "js_add (Fin a) (Fin b) = Fin (a + b)"
| "js_add PInf NInf = NaN"
| "js_add NInf PInf = NaN"
| "js_add PInf _ = PInf"
| "js_add NInf _ = NInf"
| "js_add _ PInf = PInf"
| "js_add _ NInf = NInf"

definition js_sub :: "jsnum \<Rightarrow> jsnum \<Rightarrow> jsnum" where
  "js_sub a b = js_add a (js_neg b)"

text \<open>The sign of a product or quotient with an infinite operand.\<close>

definition signed_inf :: "bool \<Rightarrow> jsnum" where
  "signed_inf positive = (if positive then PInf else NInf)"

fun js_mul :: "jsnum \<Rightarrow> jsnum \<Rightarrow> jsnum" where
  "js_mul NaN _ = NaN"
| "js_mul _ NaN = NaN"
| "js_mul (Fin a) (Fin b) = Fin (a * b)"
| "js_mul (Fin a) PInf = (if a = 0 then NaN else signed_inf (0 < a))"
| "js_mul (Fin a) NInf = (if a = 0 then NaN else signed_inf (a < 0))"
| "js_mul PInf (Fin b) = (if b = 0 then NaN else signed_inf (0 < b))"
| "js_mul NInf (Fin b) = (if b = 0 then NaN else signed_inf (b < 0))"
| "js_mul PInf PInf = PInf"
| "js_mul PInf NInf = NInf"
| "js_mul NInf PInf = NInf"
| "js_mul NInf NInf = PInf"

fun js_div :: "jsnum \<Rightarrow> jsnum \<Rightarrow> jsnum" where
  "js_div NaN _ = NaN"
| "js_div _ NaN = NaN"
| "js_div (Fin a) (Fin b) =
     (if b = 0 then (if a = 0 then NaN else signed_inf (0 < a)) else Fin (a / b))"
| "js_div (Fin a) PInf = Fin 0"
| "js_div (Fin a) NInf = Fin 0"
| "js_div PInf (Fin b) = signed_inf (0 \<le> b)"
| "js_div NInf (Fin b) = signed_inf (b < 0)"
| "js_div PInf PInf = NaN"
| "js_div PInf NInf = NaN"
| "js_div NInf PInf = NaN"
| "js_div NInf NInf = NaN"

text \<open>The remainder \<open>a % b\<close> has the sign of the dividend (the quotient is truncated).\<close>

definition trunc :: "real \<Rightarrow> int" where
  "trunc a = (if 0 \<le> a then \<lfloor>a\<rfloor> else \<lceil>a\<rceil>)"


fun js_abs :: "jsnum \<Rightarrow> jsnum" where
  "js_abs (Fin a) = Fin \<bar>a\<bar>"
| "js_abs PInf = PInf"
| "js_abs NInf = PInf"
| "js_abs NaN = NaN"

text \<open>\<open>Math.round\<close> rounds a half up; \<open>Math.ceil\<close> is the ceiling.\<close>

fun js_round :: "jsnum \<Rightarrow> jsnum" where
  "js_round (Fin a) = Fin (of_int \<lfloor>a + 1 / 2\<rfloor>)"
| "js_round v = v"

fun js_ceil :: "jsnum \<Rightarrow> jsnum" where
  "js_ceil (Fin a) = Fin (of_int \<lceil>a\<rceil>)"
| "js_ceil v = v"

text \<open>Comparisons: every comparison with NaN is false.\<close>

fun js_lt :: "jsnum \<Rightarrow> jsnum \<Rightarrow> bool" where
  "js_lt NaN _ = False"
| "js_lt _ NaN = False"
| "js_lt (Fin a) (Fin b) = (a < b)"
| "js_lt _ NInf = False"
| "js_lt PInf _ = False"
| "js_lt NInf _ = True"
| "js_lt _ PInf = True"

definition js_gt :: "jsnum \<Rightarrow> jsnum \<Rightarrow> bool" where
  "js_gt a b = js_lt b a"

text \<open>\<open>Math.min\<close> and \<open>Math.max\<close>: NaN if an argument is NaN.\<close>

definition js_min :: "jsnum \<Rightarrow> jsnum \<Rightarrow> jsnum" where
  "js_min a b = (if js_isNaN a \<or> js_isNaN b then NaN else if js_lt b a then b else a)"

definition js_max :: "jsnum \<Rightarrow> jsnum \<Rightarrow> jsnum" where
  "js_max a b = (if js_isNaN a \<or> js_isNaN b then NaN else if js_lt a b then b else a)"

text \<open>\<open>Math.min(...xs)\<close> and \<open>Math.max(...xs)\<close> of a spread array.\<close>

definition js_min_list :: "jsnum list \<Rightarrow> jsnum" where
  "js_min_list xs = foldl js_min PInf xs"

definition js_max_list :: "jsnum list \<Rightarrow> jsnum" where
  "js_max_list xs = foldl js_max NInf xs"

text \<open>A number is falsy when it is zero or NaN.\<close>

fun js_falsy :: "jsnum \<Rightarrow> bool" where
  "js_falsy (Fin a) = (a = 0)"
| "js_falsy NaN = True"
| "js_falsy _ = False"

text \<open>
  The operand conversion of the bitwise operators (ToInt32): NaN and the infinities
  become 0, a finite number is truncated and wrapped into the signed 32-bit range.
\<close>

fun to_int32 :: "jsnum \<Rightarrow> int" where
  "to_int32 (Fin a) = (trunc a + 2 ^ 31) mod 2 ^ 32 - 2 ^ 31"
| "to_int32 _ = 0"

section \<open>Stitch patterns (types.ts)\<close>

datatype StitchType = Normal | Jump | Trim | Stop | End

text \<open>
  The colour of a stitch is a string; \<open>None\<close> is JavaScript's \<open>undefined\<close>, the value
  read from a property that the object does not have.
\<close>

record StitchPoint =
  stitch_x :: jsnum
  stitch_y :: jsnum
  stitch_type :: StitchType
  stitch_color :: "string option"

record Dimensions =
  width :: jsnum
  height :: jsnum

record StitchPattern =
  stitches :: "StitchPoint list"
  colors :: "string list"
  dimensions :: Dimensions

text \<open>
  The throw sites of the writer and of the format converter, one constructor each, and
  the two runtime errors of the colour processor: the \<open>ImageData\<close> constructor refusing
  its arguments, and a property read on \<open>undefined\<close>; then the two errors of the
  pipeline before a pattern is created.
\<close>

datatype error =
    PatternHasNoStitches
  | PatternHasTooManyStitches nat
  | InvalidCoordinatesAtStitch nat
  | InvalidPatternDimensions
  | DimensionsExceed400mm
  | HeaderSizeExceedsMaximum
  | FailedToCreateDSTFile error
  | PatternMustContainStitches
  | PatternMustHaveValidDimensions
  | PatternMustHaveAtLeastOneColor
  | InvalidCoordinatesInStitch nat
  | TooManyStitchesForFormat nat
  | TooManyColorsForFormat nat
  | DimensionsExceedFormat jsnum
  | InvalidImageData
  | UndefinedThreadColor
  | NoContoursFound
  | FailedToGenerateStitches

section \<open>DSTWriter (formats/dst.ts)\<close>

definition PPMM :: jsnum where "PPMM = Fin 10"
definition MAX_JUMP :: jsnum where "MAX_JUMP = Fin 121"
definition MAX_STITCH :: jsnum where "MAX_STITCH = Fin 121"
definition HEADER_SIZE :: nat where "HEADER_SIZE = 512"
definition MAX_STITCHES :: nat where "MAX_STITCHES = 999999"

text \<open>
  \<open>forEach\<close> over the stitches throws at the first index whose x or y is NaN;
  \<open>firstNaN\<close> finds that index, counting from \<open>i\<close>. Only \<open>isNaN\<close> is tested.
\<close>

fun firstNaN :: "nat \<Rightarrow> StitchPoint list \<Rightarrow> nat option" where
  "firstNaN i [] = None"
| "firstNaN i (s # ss) =
     (if js_isNaN (stitch_x s) \<or> js_isNaN (stitch_y s) then Some i else firstNaN (Suc i) ss)"

definition DSTWriter_validatePattern :: "StitchPattern \<Rightarrow> error + unit" where
  "DSTWriter_validatePattern pattern =
     (if length (stitches pattern) = 0 then Inl PatternHasNoStitches
      else if length (stitches pattern) > MAX_STITCHES
        then Inl (PatternHasTooManyStitches (length (stitches pattern)))
      else case firstNaN 0 (stitches pattern) of
        Some index \<Rightarrow> Inl (InvalidCoordinatesAtStitch index)
      | None \<Rightarrow>
         if js_falsy (width (dimensions pattern)) \<or> js_falsy (height (dimensions pattern))
           then Inl InvalidPatternDimensions
         else if js_gt (width (dimensions pattern)) (Fin 400)
               \<or> js_gt (height (dimensions pattern)) (Fin 400)
           then Inl DimensionsExceed400mm
         else Inr ())"

definition normalizeCoordinates :: "StitchPattern \<Rightarrow> StitchPattern" where
  "normalizeCoordinates pattern =
     (let minX = js_min_list (map stitch_x (stitches pattern));
          minY = js_min_list (map stitch_y (stitches pattern))
      in pattern\<lparr>stitches :=
           map (\<lambda>stitch. stitch\<lparr>
                  stitch_x := js_round (js_mul (js_sub (stitch_x stitch) minX) PPMM),
                  stitch_y := js_round (js_mul (js_sub (stitch_y stitch) minY) PPMM)\<rparr>)
               (stitches pattern)\<rparr>)"

record Bounds =
  minX :: jsnum
  maxX :: jsnum
  minY :: jsnum
  maxY :: jsnum

definition DSTWriter_calculateBounds :: "StitchPoint list \<Rightarrow> Bounds" where
  "DSTWriter_calculateBounds ss =
     \<lparr>minX = js_min_list (map stitch_x ss), maxX = js_max_list (map stitch_x ss),
      minY = js_min_list (map stitch_y ss), maxY = js_max_list (map stitch_y ss)\<rparr>"

text \<open>
  The header interpolates numbers into a template string. The conversion of a number
  to a string is the runtime's; it is the parameter \<open>fmt\<close> of \<open>createHeader\<close> and
  \<open>DSTWriter_write\<close>, and \<open>decimal\<close> below is what it gives on the natural numbers.
  \<open>CRLF\<close> is the separator \<open>\r\n\<close>; the text is ASCII, one byte per character.
\<close>

definition CRLF :: string where
  "CRLF = [char_of (13::nat), char_of (10::nat)]"

fun join :: "string \<Rightarrow> string list \<Rightarrow> string" where
  "join sep [] = []"
| "join sep [l] = l"
| "join sep (l # ls) = l @ sep @ join sep ls"

definition headerText :: "(jsnum \<Rightarrow> string) \<Rightarrow> StitchPattern \<Rightarrow> string" where
  "headerText fmt pattern =
     (let bounds = DSTWriter_calculateBounds (stitches pattern)
      in join CRLF
        [''LA:Design Studio'',
         ''ST:'' @ fmt (Fin (real (length (stitches pattern)))),
         ''CO:1'',
         ''+X:'' @ fmt (maxX bounds),
         ''-X:'' @ fmt (js_abs (minX bounds)),
         ''+Y:'' @ fmt (maxY bounds),
         ''-Y:'' @ fmt (js_abs (minY bounds)),
         ''AX:+0'',
         ''AY:+0'',
         ''MX:+0'',
         ''MY:+0'',
         ''PD:******''] @ CRLF)"

definition createHeader :: "(jsnum \<Rightarrow> string) \<Rightarrow> StitchPattern \<Rightarrow> error + nat list" where
  "createHeader fmt pattern =
     (let headerBytes = map of_char (headerText fmt pattern)
      in if length headerBytes > HEADER_SIZE then Inl HeaderSizeExceedsMaximum
         else Inr (headerBytes @ replicate (HEADER_SIZE - length headerBytes) 0))"

text \<open>One 3-byte record: the numbers \<open>[b0, b1, b2]\<close>.\<close>

definition typeBits :: "StitchType \<Rightarrow> int" where
  "typeBits t = (case t of Jump \<Rightarrow> 0x83 | Stop \<Rightarrow> 0xC3 | End \<Rightarrow> 0xF3 | _ \<Rightarrow> 0x03)"

definition encodeStitchDelta :: "jsnum \<Rightarrow> jsnum \<Rightarrow> StitchType \<Rightarrow> int list" where
  "encodeStitchDelta dx0 dy0 t =
     (let dx = js_max (js_neg MAX_STITCH) (js_min MAX_STITCH dx0);
          dy = js_max (js_neg MAX_STITCH) (js_min MAX_STITCH dy0);
          x = js_abs dx;
          y = js_abs dy;
          b0 = to_int32 y AND 0x0F;
          b1 = to_int32 x AND 0x0F;
          b2 = drop_bit 4 (to_int32 y AND 0xF0) OR drop_bit 4 (to_int32 x AND 0xF0);
          b2 = (if js_lt dx (Fin 0) then b2 OR 0x20 else b2);
          b2 = (if js_lt dy (Fin 0) then b2 OR 0x40 else b2);
          b2 = b2 OR typeBits t
      in [b0, b1, b2])"

text \<open>
  \<open>encodeStitches\<close> pushes the bytes of one record after the other. The model first
  collects the arguments \<open>(dx, dy, type)\<close> of the successive \<open>encodeStitchDelta\<close>
  calls, in order, and then encodes them.
\<close>

type_synonym delta = "jsnum \<times> jsnum \<times> StitchType"

definition splitSteps :: "jsnum \<Rightarrow> jsnum \<Rightarrow> jsnum" where
  "splitSteps dx dy =
     js_max (js_ceil (js_div (js_abs dx) MAX_JUMP)) (js_ceil (js_div (js_abs dy) MAX_JUMP))"

text \<open>\<open>Math.round(d * (i + 1) / steps - d * i / steps)\<close>\<close>

definition stepDelta :: "jsnum \<Rightarrow> jsnum \<Rightarrow> nat \<Rightarrow> jsnum" where
  "stepDelta d steps i =
     js_round (js_sub (js_div (js_mul d (Fin (real (i + 1)))) steps)
                      (js_div (js_mul d (Fin (real i))) steps))"

text \<open>
  The inner loop \<open>for (let i = 0; i < steps; i++)\<close>. With \<open>steps = Infinity\<close> it
  never exits; not returning is the value \<open>None\<close>.
\<close>

partial_function (option) jumpLoop ::
  "jsnum \<Rightarrow> jsnum \<Rightarrow> jsnum \<Rightarrow> nat \<Rightarrow> delta list \<Rightarrow> delta list option" where
  "jumpLoop dx dy steps i data =
     (if js_lt (Fin (real i)) steps
      then jumpLoop dx dy steps (Suc i)
             (data @ [(stepDelta dx steps i, stepDelta dy steps i, Jump)])
      else Some data)"

declare jumpLoop.simps [code]

fun stitchLoop ::
  "jsnum \<Rightarrow> jsnum \<Rightarrow> StitchPoint list \<Rightarrow> delta list \<Rightarrow> delta list option" where
  "stitchLoop lastX lastY [] data = Some data"
| "stitchLoop lastX lastY (stitch # rest) data =
     (let dx = js_sub (stitch_x stitch) lastX;
          dy = js_sub (stitch_y stitch) lastY
      in if js_gt (js_abs dx) MAX_STITCH \<or> js_gt (js_abs dy) MAX_STITCH
         then (case jumpLoop dx dy (splitSteps dx dy) 0 data of
                 None \<Rightarrow> None
               | Some data' \<Rightarrow> stitchLoop (stitch_x stitch) (stitch_y stitch) rest data')
         else stitchLoop (stitch_x stitch) (stitch_y stitch) rest
                (data @ [(dx, dy, stitch_type stitch)]))"

definition stitchDeltas :: "StitchPoint list \<Rightarrow> delta list option" where
  "stitchDeltas ss =
     (case stitchLoop (Fin 0) (Fin 0) ss [(Fin 0, Fin 0, Jump)] of
        None \<Rightarrow> None
      | Some data \<Rightarrow> Some (data @ [(Fin 0, Fin 0, End)]))"

text \<open>\<open>new Uint8Array(data)\<close> stores each number modulo 256.\<close>

definition to_uint8 :: "int \<Rightarrow> nat" where
  "to_uint8 v = nat (v mod 256)"

definition encodeDelta :: "delta \<Rightarrow> nat list" where
  "encodeDelta d = (case d of (dx, dy, t) \<Rightarrow> map to_uint8 (encodeStitchDelta dx dy t))"

definition encodeStitches :: "StitchPoint list \<Rightarrow> nat list option" where
  "encodeStitches ss = map_option (\<lambda>ds. concat (map encodeDelta ds)) (stitchDeltas ss)"

text \<open>
  \<open>DSTWriter.write\<close>: every error raised inside is caught and rethrown as
  \<open>Failed to create DST file\<close> with the original as its cause.
\<close>

definition DSTWriter_write :: "(jsnum \<Rightarrow> string) \<Rightarrow> StitchPattern \<Rightarrow> (error + nat list) option" where
  "DSTWriter_write fmt pattern =
     (case DSTWriter_validatePattern pattern of
        Inl e \<Rightarrow> Some (Inl (FailedToCreateDSTFile e))
      | Inr _ \<Rightarrow>
          (let normalizedPattern = normalizeCoordinates pattern
           in (case createHeader fmt normalizedPattern of
                 Inl e \<Rightarrow> Some (Inl (FailedToCreateDSTFile e))
               | Inr header \<Rightarrow>
                   (case encodeStitches (stitches normalizedPattern) of
                      None \<Rightarrow> None
                    | Some stitchData \<Rightarrow> Some (Inr (header @ stitchData))))))"

text \<open>
  Number formatting on the values of the scenarios below: NaN, the infinities and the
  integers (of magnitude below \<open>10^21\<close>, where the runtime switches to exponents).
\<close>

fun decimal :: "nat \<Rightarrow> string" where
  "decimal n =
     (if n < 10 then [char_of (48 + n)] else decimal (n div 10) @ [char_of (48 + n mod 10)])"

fun numberToString :: "jsnum \<Rightarrow> string" where
  "numberToString NaN = ''NaN''"
| "numberToString PInf = ''Infinity''"
| "numberToString NInf = ''-Infinity''"
| "numberToString (Fin a) = (if a < 0 then ''-'' else []) @ decimal (nat \<bar>trunc a\<bar>)"

text \<open>
  The number of records the writer emits for a pattern: the leading jump, for each
  stitch one record or, for a large movement, its group of \<open>steps\<close> jumps, and the
  final end record.
\<close>

fun stepCount :: "jsnum \<Rightarrow> nat" where
  "stepCount (Fin s) = nat \<lceil>s\<rceil>"
| "stepCount _ = 0"

fun groupSizes :: "jsnum \<Rightarrow> jsnum \<Rightarrow> StitchPoint list \<Rightarrow> nat" where
  "groupSizes lastX lastY [] = 0"
| "groupSizes lastX lastY (stitch # rest) =
     (let dx = js_sub (stitch_x stitch) lastX;
          dy = js_sub (stitch_y stitch) lastY
      in (if js_gt (js_abs dx) MAX_STITCH \<or> js_gt (js_abs dy) MAX_STITCH
          then stepCount (splitSteps dx dy) else 1)
         + groupSizes (stitch_x stitch) (stitch_y stitch) rest)"

definition stitchesEmitted :: "StitchPattern \<Rightarrow> nat" where
  "stitchesEmitted pattern =
     1 + groupSizes (Fin 0) (Fin 0) (stitches (normalizeCoordinates pattern)) + 1"

section \<open>FormatConverter (formats/converter.ts)\<close>

datatype EmbroideryFormat = DST | PES | JEF | EXP | VP3 | HUS | PAT | QCC

record FormatValidation =
  maxStitches :: nat
  maxColors :: nat
  maxDimension :: jsnum

definition FORMAT_LIMITS :: "EmbroideryFormat \<Rightarrow> FormatValidation" where
  "FORMAT_LIMITS format = (case format of
       DST \<Rightarrow> \<lparr>maxStitches = 999999, maxColors = 1, maxDimension = Fin 400\<rparr>
     | PES \<Rightarrow> \<lparr>maxStitches = 100000, maxColors = 99, maxDimension = Fin 260\<rparr>
     | JEF \<Rightarrow> \<lparr>maxStitches = 65535, maxColors = 99, maxDimension = Fin 260\<rparr>
     | EXP \<Rightarrow> \<lparr>maxStitches = 999999, maxColors = 1, maxDimension = Fin 400\<rparr>
     | VP3 \<Rightarrow> \<lparr>maxStitches = 100000, maxColors = 99, maxDimension = Fin 260\<rparr>
     | HUS \<Rightarrow> \<lparr>maxStitches = 100000, maxColors = 99, maxDimension = Fin 260\<rparr>
     | PAT \<Rightarrow> \<lparr>maxStitches = 999999, maxColors = 1, maxDimension = Fin 400\<rparr>
     | QCC \<Rightarrow> \<lparr>maxStitches = 999999, maxColors = 1, maxDimension = Fin 400\<rparr>)"

definition FormatConverter_validatePattern :: "StitchPattern \<Rightarrow> error + unit" where
  "FormatConverter_validatePattern pattern =
     (if length (stitches pattern) = 0 then Inl PatternMustContainStitches
      else if js_falsy (width (dimensions pattern)) \<or> js_falsy (height (dimensions pattern))
        then Inl PatternMustHaveValidDimensions
      else if length (colors pattern) = 0 then Inl PatternMustHaveAtLeastOneColor
      else case firstNaN 0 (stitches pattern) of
        Some index \<Rightarrow> Inl (InvalidCoordinatesInStitch index)
      | None \<Rightarrow> Inr ())"

definition validateFormatLimits :: "StitchPattern \<Rightarrow> EmbroideryFormat \<Rightarrow> error + unit" where
  "validateFormatLimits pattern format =
     (let limits = FORMAT_LIMITS format
      in if length (stitches pattern) > maxStitches limits
           then Inl (TooManyStitchesForFormat (maxStitches limits))
         else if length (colors pattern) > maxColors limits
           then Inl (TooManyColorsForFormat (maxColors limits))
         else let maxDim = js_max (width (dimensions pattern)) (height (dimensions pattern))
              in if js_gt maxDim (maxDimension limits)
                   then Inl (DimensionsExceedFormat (maxDimension limits))
                 else Inr ())"

definition convertToMachineFormat :: "StitchPattern \<Rightarrow> StitchPattern" where
  "convertToMachineFormat pattern =
     (let minX = js_min_list (map stitch_x (stitches pattern));
          minY = js_min_list (map stitch_y (stitches pattern))
      in pattern\<lparr>
           stitches :=
             map (\<lambda>stitch. stitch\<lparr>
                    stitch_x := js_round (js_mul (js_sub (stitch_x stitch) minX) (Fin 10)),
                    stitch_y := js_round (js_mul (js_sub (stitch_y stitch) minY) (Fin 10))\<rparr>)
                 (stitches pattern),
           dimensions :=
             \<lparr>width = js_round (js_mul (width (dimensions pattern)) (Fin 10)),
              height = js_round (js_mul (height (dimensions pattern)) (Fin 10))\<rparr>\<rparr>)"

text \<open>
  \<open>convertToFormat\<close> calls \<open>ColorProcessor.validateThreadColor\<close> and, for the formats
  other than DST, the writers of \<open>pes.ts\<close>, \<open>jef.ts\<close>, ...; their code is not
  part of the sources modelled here. They are the parameters \<open>validateThreadColor\<close> (from a colour, which
  may be \<open>undefined\<close>, to a colour) and \<open>writers\<close>.
  A \<open>ProcessingError\<close> raised inside is rethrown unchanged.
\<close>

definition convertToFormat ::
  "(string option \<Rightarrow> string) \<Rightarrow>
   (EmbroideryFormat \<Rightarrow> StitchPattern \<Rightarrow> (error + nat list) option) \<Rightarrow>
   (jsnum \<Rightarrow> string) \<Rightarrow> StitchPattern \<Rightarrow> EmbroideryFormat \<Rightarrow> (error + nat list) option" where
  "convertToFormat validateThreadColor writers fmt pattern format =
     (case FormatConverter_validatePattern pattern of
        Inl e \<Rightarrow> Some (Inl e)
      | Inr _ \<Rightarrow>
          (let validatedColors = map (\<lambda>color. validateThreadColor (Some color)) (colors pattern);
               validatedPattern = pattern\<lparr>
                 colors := validatedColors,
                 stitches := map (\<lambda>stitch. stitch\<lparr>stitch_color :=
                                     Some (validateThreadColor (stitch_color stitch))\<rparr>)
                               (stitches pattern)\<rparr>
           in (case validateFormatLimits validatedPattern format of
                 Inl e \<Rightarrow> Some (Inl e)
               | Inr _ \<Rightarrow>
                   (let machinePattern = convertToMachineFormat validatedPattern
                    in (case format of
                          DST \<Rightarrow> DSTWriter_write fmt machinePattern
                        | _ \<Rightarrow> writers format machinePattern)))))"

definition point :: "real \<Rightarrow> real \<Rightarrow> StitchType \<Rightarrow> StitchPoint" where
  "point a b t =
     \<lparr>stitch_x = Fin a, stitch_y = Fin b, stitch_type = t, stitch_color = Some ''#000000''\<rparr>"

section \<open>Settings sanitizer (ConversionManager)\<close>

text \<open>
  The settings objects have the properties \<open>width\<close> and \<open>height\<close> of the pattern
  dimensions and more; the records extend each other so that every property keeps its
  name. A numeric property that is absent reads as \<open>undefined\<close>, which \<open>Math.min\<close>,
  \<open>%\<close> and \<open>||\<close> treat as NaN: it is modelled as NaN.
\<close>

record CommonSettings = Dimensions +
  density :: jsnum
  pullCompensation :: jsnum
  color :: "string option"
  edgeThreshold :: jsnum

record Settings = CommonSettings +
  angle :: jsnum
  underlay :: bool

record ProcessingSettings = CommonSettings +
  fillAngle :: jsnum
  useUnderlay :: bool






section \<open>ColorProcessor (color-processor.ts, unnamed/part_002)\<close>

text \<open>
  The palette is a constant table; its RGB components are integers. The channels of a
  pixel are the bytes of a \<open>Uint8ClampedArray\<close>, natural numbers below 256.
\<close>

record RGB =
  rgb_r :: nat
  rgb_g :: nat
  rgb_b :: nat

record ThreadColor =
  thread_name :: string
  thread_hex :: string
  thread_rgb :: RGB

definition THREAD_COLORS :: "ThreadColor list" where
  "THREAD_COLORS =
    [\<lparr>thread_name = ''Black'', thread_hex = ''#000000'', thread_rgb = \<lparr>rgb_r = 0, rgb_g = 0, rgb_b = 0\<rparr>\<rparr>,
     \<lparr>thread_name = ''Dark Gray'', thread_hex = ''#404040'', thread_rgb = \<lparr>rgb_r = 64, rgb_g = 64, rgb_b = 64\<rparr>\<rparr>,
     \<lparr>thread_name = ''Medium Gray'', thread_hex = ''#808080'', thread_rgb = \<lparr>rgb_r = 128, rgb_g = 128, rgb_b = 128\<rparr>\<rparr>,
     \<lparr>thread_name = ''Light Gray'', thread_hex = ''#C0C0C0'', thread_rgb = \<lparr>rgb_r = 192, rgb_g = 192, rgb_b = 192\<rparr>\<rparr>,
     \<lparr>thread_name = ''White'', thread_hex = ''#FFFFFF'', thread_rgb = \<lparr>rgb_r = 255, rgb_g = 255, rgb_b = 255\<rparr>\<rparr>,
     \<lparr>thread_name = ''Red'', thread_hex = ''#FF0000'', thread_rgb = \<lparr>rgb_r = 255, rgb_g = 0, rgb_b = 0\<rparr>\<rparr>,
     \<lparr>thread_name = ''Green'', thread_hex = ''#00FF00'', thread_rgb = \<lparr>rgb_r = 0, rgb_g = 255, rgb_b = 0\<rparr>\<rparr>,
     \<lparr>thread_name = ''Blue'', thread_hex = ''#0000FF'', thread_rgb = \<lparr>rgb_r = 0, rgb_g = 0, rgb_b = 255\<rparr>\<rparr>,
     \<lparr>thread_name = ''Yellow'', thread_hex = ''#FFFF00'', thread_rgb = \<lparr>rgb_r = 255, rgb_g = 255, rgb_b = 0\<rparr>\<rparr>,
     \<lparr>thread_name = ''Cyan'', thread_hex = ''#00FFFF'', thread_rgb = \<lparr>rgb_r = 0, rgb_g = 255, rgb_b = 255\<rparr>\<rparr>,
     \<lparr>thread_name = ''Magenta'', thread_hex = ''#FF00FF'', thread_rgb = \<lparr>rgb_r = 255, rgb_g = 0, rgb_b = 255\<rparr>\<rparr>]"

text \<open>
  \<open>THREAD_COLORS.slice(0, 5)\<close>
\<close>

definition GRAYSCALE_COLORS :: "ThreadColor list" where
  "GRAYSCALE_COLORS = take 5 THREAD_COLORS"

datatype ColorMode = GrayscaleMode | ColorMode

text \<open>
  The colour distance is computed on JavaScript numbers, here real numbers: every value
  that reaches it is finite. The result of \<open>Math.sqrt\<close> is the real square root.
\<close>

type_synonym triple = "real \<times> real \<times> real"

definition rgbColor :: "RGB \<Rightarrow> triple" where
  "rgbColor c = (real (rgb_r c), real (rgb_g c), real (rgb_b c))"

definition calculateColorDistance :: "triple \<Rightarrow> triple \<Rightarrow> real" where
  "calculateColorDistance color1 color2 =
     (case color1 of (r1, g1, b1) \<Rightarrow> case color2 of (r2, g2, b2) \<Rightarrow>
      let l1 = 0.2126 * r1 + 0.7152 * g1 + 0.0722 * b1;
          l2 = 0.2126 * r2 + 0.7152 * g2 + 0.0722 * b2;
          dl = l1 - l2;
          da = r1 - r2;
          db = b1 - b2;
          c1 = sqrt (r1 * r1 + b1 * b1);
          c2 = sqrt (r2 * r2 + b2 * b2);
          dc = c1 - c2;
          dh = sqrt (max 0 (da * da + db * db - dc * dc));
          sl = 1;
          sc = 1 + 0.045 * c1;
          sh = 1 + 0.015 * c1
      in sqrt ((dl / sl)\<^sup>2 + (dc / sc)\<^sup>2 + (dh / sh)\<^sup>2))"

text \<open>
  \<open>findClosestColor\<close> starts from \<open>palette[0]\<close> and \<open>minDistance = Infinity\<close> and
  replaces both whenever a strictly smaller distance is found; \<open>closerStep\<close> is the body
  of its loop. On an empty palette the result is \<open>undefined\<close>, here \<open>None\<close>.
\<close>

definition closerStep :: "triple \<Rightarrow> ThreadColor \<times> jsnum \<Rightarrow> ThreadColor \<Rightarrow> ThreadColor \<times> jsnum" where
  "closerStep colour st threadColor =
     (case st of (closestColor, minDistance) \<Rightarrow>
        let distance = calculateColorDistance colour (rgbColor (thread_rgb threadColor))
        in if js_lt (Fin distance) minDistance then (threadColor, Fin distance)
           else (closestColor, minDistance))"

definition findClosestColor :: "triple \<Rightarrow> ThreadColor list \<Rightarrow> ThreadColor option" where
  "findClosestColor colour palette =
     (case palette of
        [] \<Rightarrow> None
      | first # _ \<Rightarrow> Some (fst (foldl (closerStep colour) (first, PInf) palette)))"

text \<open>
  The body of the pixel loop: in grayscale mode the rounded luminance
  \<open>Math.round(r * 0.299 + g * 0.587 + b * 0.114)\<close> is matched against the first five
  entries, otherwise the pixel itself against the whole palette.
\<close>

definition grayValue :: "nat \<Rightarrow> nat \<Rightarrow> nat \<Rightarrow> real" where
  "grayValue r g b =
     real_of_int \<lfloor>real r * 0.299 + real g * 0.587 + real b * 0.114 + 1 / 2\<rfloor>"

definition pixelThreadColor :: "ColorMode \<Rightarrow> nat \<Rightarrow> nat \<Rightarrow> nat \<Rightarrow> ThreadColor option" where
  "pixelThreadColor colorMode r g b =
     (case colorMode of
        GrayscaleMode \<Rightarrow>
          (let gray = grayValue r g b
           in findClosestColor (gray, gray, gray) GRAYSCALE_COLORS)
      | ColorMode \<Rightarrow> findClosestColor (real r, real g, real b) THREAD_COLORS)"

text \<open>
  \<open>usedColors\<close> is a \<open>Set\<close>, which keeps insertion order and ignores an element it
  already has; \<open>Array.from\<close> lists it in that order.
\<close>

definition setAdd :: "string list \<Rightarrow> string \<Rightarrow> string list" where
  "setAdd used h = (if h \<in> set used then used else used @ [h])"

text \<open>
  The loop \<open>for (i = 0; i < data.length; i += 4)\<close> over the RGBA bytes, as a recursion
  on the remaining bytes; the alpha byte is kept. The second equation is the end of the
  data (the constructor of \<open>ImageData\<close> has refused any length that is not a multiple
  of 4 before the loop starts).
\<close>

fun quantizeLoop :: "ColorMode \<Rightarrow> nat list \<Rightarrow> string list \<Rightarrow> error + (nat list \<times> string list)" where
  "quantizeLoop colorMode (r # g # b # a # rest) usedColors =
     (case pixelThreadColor colorMode r g b of
        None \<Rightarrow> Inl UndefinedThreadColor
      | Some threadColor \<Rightarrow>
          (case quantizeLoop colorMode rest (setAdd usedColors (thread_hex threadColor)) of
             Inl e \<Rightarrow> Inl e
           | Inr (out, used) \<Rightarrow>
               Inr (rgb_r (thread_rgb threadColor) # rgb_g (thread_rgb threadColor)
                    # rgb_b (thread_rgb threadColor) # a # out, used)))"
| "quantizeLoop colorMode rest usedColors = Inr (rest, usedColors)"

text \<open>
  \<open>new ImageData(data, width, height)\<close> throws unless both sizes are positive and the
  data has \<open>4 * width * height\<close> bytes.
\<close>

record ImageData =
  image_data :: "nat list"
  image_width :: nat
  image_height :: nat

definition newImageData :: "nat list \<Rightarrow> nat \<Rightarrow> nat \<Rightarrow> error + ImageData" where
  "newImageData d w h =
     (if w = 0 \<or> h = 0 \<or> length d \<noteq> 4 * w * h then Inl InvalidImageData
      else Inr \<lparr>image_data = d, image_width = w, image_height = h\<rparr>)"

definition processImage :: "ImageData \<Rightarrow> ColorMode \<Rightarrow> error + (ImageData \<times> string list)" where
  "processImage imageData colorMode =
     (case newImageData (image_data imageData) (image_width imageData) (image_height imageData) of
        Inl e \<Rightarrow> Inl e
      | Inr processed \<Rightarrow>
          (case quantizeLoop colorMode (image_data processed) [] of
             Inl e \<Rightarrow> Inl e
           | Inr (out, usedColors) \<Rightarrow> Inr (processed\<lparr>image_data := out\<rparr>, usedColors)))"

text \<open>
  Vocabulary of the claims: entry \<open>k\<close> of a palette is nearest to a colour when no
  entry is closer and every entry before it is strictly farther (ties go to the lowest
  index).
\<close>

definition isNearest :: "triple \<Rightarrow> ThreadColor list \<Rightarrow> nat \<Rightarrow> bool" where
  "isNearest c palette k \<longleftrightarrow>
     k < length palette \<and>
     (\<forall>j<length palette. calculateColorDistance c (rgbColor (thread_rgb (palette ! k)))
                           \<le> calculateColorDistance c (rgbColor (thread_rgb (palette ! j)))) \<and>
     (\<forall>j<k. calculateColorDistance c (rgbColor (thread_rgb (palette ! k)))
                           < calculateColorDistance c (rgbColor (thread_rgb (palette ! j))))"

text \<open>
  The palette of a mode, and the luminance of the specification:
  \<open>Y = 0.299 R + 0.587 G + 0.114 B\<close>, not rounded (spec section 4.1).
  \<open>grayLevel\<close> and \<open>grayFactor\<close> serve the proofs: between two grays the distance is
  the difference of the levels times a positive factor.
\<close>

definition paletteFor :: "ColorMode \<Rightarrow> ThreadColor list" where
  "paletteFor colorMode =
     (case colorMode of GrayscaleMode \<Rightarrow> GRAYSCALE_COLORS | ColorMode \<Rightarrow> THREAD_COLORS)"




text \<open>
  Pixel \<open>p\<close> of the output holds the RGB of the thread colour chosen for pixel \<open>p\<close> of
  the input, and the input's alpha.
\<close>

definition pixelOk :: "ColorMode \<Rightarrow> nat list \<Rightarrow> nat list \<Rightarrow> nat \<Rightarrow> bool" where
  "pixelOk colorMode d out p \<longleftrightarrow>
     (\<exists>tc. pixelThreadColor colorMode (d ! (4 * p)) (d ! (4 * p + 1)) (d ! (4 * p + 2)) = Some tc
        \<and> out ! (4 * p) = rgb_r (thread_rgb tc)
        \<and> out ! (4 * p + 1) = rgb_g (thread_rgb tc)
        \<and> out ! (4 * p + 2) = rgb_b (thread_rgb tc)
        \<and> out ! (4 * p + 3) = d ! (4 * p + 3))"

text \<open>
  The RGB of pixel \<open>p\<close> of a buffer, the RGB of a palette entry, and the colour a
  grayscale pixel is matched with: by the code (\<open>grayTriple\<close>, rounded) and by the
  specification (\<open>specGrayTriple\<close>, not rounded).
\<close>

definition pixelAt :: "nat list \<Rightarrow> nat \<Rightarrow> nat \<times> nat \<times> nat" where
  "pixelAt d p = (d ! (4 * p), d ! (4 * p + 1), d ! (4 * p + 2))"

definition threadTriple :: "ThreadColor \<Rightarrow> nat \<times> nat \<times> nat" where
  "threadTriple tc = (rgb_r (thread_rgb tc), rgb_g (thread_rgb tc), rgb_b (thread_rgb tc))"



definition twoPixels :: ImageData where
  "twoPixels = \<lparr>image_data = [10, 10, 10, 255, 250, 250, 250, 128], image_width = 2, image_height = 1\<rparr>"

section \<open>StitchGenerator (stitch-generator.ts) and the pipeline (conversion/Pipeline.ts)\<close>

text \<open>
  The generator works on contour points and settings that are finite numbers: pixel
  coordinates from the tracer, and settings that \<open>Pipeline.validateInput\<close> has checked
  to be positive. They are real numbers here, \<open>Math.sqrt\<close>, \<open>Math.hypot\<close>, \<open>Math.cos\<close>
  and \<open>Math.sin\<close> are the real functions, and the coordinates of a generated stitch are
  finite. The settings object of \<open>generateFillStitches\<close> is the generator's with
  \<open>angle\<close> and \<open>spacing\<close> set; only \<open>angle\<close>, \<open>spacing\<close> and \<open>color\<close> are
  read from it.
\<close>

record Point =
  pt_x :: real
  pt_y :: real

record GeneratorSettings =
  gen_width :: real
  gen_height :: real
  gen_density :: real
  gen_angle :: real
  gen_underlay :: bool
  gen_pullCompensation :: real
  gen_color :: "string option"

record FillSettings =
  fill_angle :: real
  fill_spacing :: real
  fill_color :: "string option"

definition stitchAt :: "real \<Rightarrow> real \<Rightarrow> StitchType \<Rightarrow> string option \<Rightarrow> StitchPoint" where
  "stitchAt a b t c = \<lparr>stitch_x = Fin a, stitch_y = Fin b, stitch_type = t, stitch_color = c\<rparr>"

definition MAX_RECOMMENDED_STITCHES :: real where
  "MAX_RECOMMENDED_STITCHES = 15000"

text \<open>
  Parametric intersection of the segments \<open>p1 p2\<close> and \<open>p3 p4\<close>; \<open>null\<close> is \<open>None\<close>.
\<close>

definition lineIntersection :: "Point \<Rightarrow> Point \<Rightarrow> Point \<Rightarrow> Point \<Rightarrow> Point option" where
  "lineIntersection p1 p2 p3 p4 =
     (let denominator = (pt_y p4 - pt_y p3) * (pt_x p2 - pt_x p1)
                        - (pt_x p4 - pt_x p3) * (pt_y p2 - pt_y p1)
      in if \<bar>denominator\<bar> < 1 / 10 ^ 10 then None
         else
           let ua = ((pt_x p4 - pt_x p3) * (pt_y p1 - pt_y p3)
                     - (pt_y p4 - pt_y p3) * (pt_x p1 - pt_x p3)) / denominator;
               ub = ((pt_x p2 - pt_x p1) * (pt_y p1 - pt_y p3)
                     - (pt_y p2 - pt_y p1) * (pt_x p1 - pt_x p3)) / denominator
           in if ua \<ge> 0 \<and> ua \<le> 1 \<and> ub \<ge> 0 \<and> ub \<le> 1
              then Some \<lparr>pt_x = pt_x p1 + ua * (pt_x p2 - pt_x p1),
                         pt_y = pt_y p1 + ua * (pt_y p2 - pt_y p1)\<rparr>
              else None)"

text \<open>
  The edges of a contour are its consecutive points \<open>contour[i], contour[i + 1]\<close>; the
  contour is not closed.
\<close>

definition findIntersections :: "Point \<Rightarrow> Point \<Rightarrow> Point list list \<Rightarrow> Point list" where
  "findIntersections lineStart lineEnd contours =
     concat (map (\<lambda>contour.
                    List.map_filter (\<lambda>(a, b). lineIntersection lineStart lineEnd a b)
                                    (zip contour (tl contour)))
                 contours)"

text \<open>
  \<open>calculateBounds\<close> starts from \<open>Infinity\<close> and \<open>-Infinity\<close>; with no point at all the
  bounds stay infinite, which is \<open>None\<close> here.
\<close>

record ContourBounds =
  cb_minX :: real
  cb_maxX :: real
  cb_minY :: real
  cb_maxY :: real

definition StitchGenerator_calculateBounds :: "Point list list \<Rightarrow> ContourBounds option" where
  "StitchGenerator_calculateBounds contours =
     (case concat contours of
        [] \<Rightarrow> None
      | p # ps \<Rightarrow>
          Some \<lparr>cb_minX = foldl min (pt_x p) (map pt_x ps),
                cb_maxX = foldl max (pt_x p) (map pt_x ps),
                cb_minY = foldl min (pt_y p) (map pt_y ps),
                cb_maxY = foldl max (pt_y p) (map pt_y ps)\<rparr>)"

text \<open>
  The stitches between one pair of intersections: \<open>steps = max(1, ceil(distance /
  spacing))\<close> Normal stitches at \<open>t = step / steps\<close>, after a Jump to the start. The loop
  \<open>for (j = 0; j < intersections.length - 1; j += 2)\<close> takes the intersections two by
  two; an intersection left alone at the end is passed over.
\<close>

definition segmentSteps :: "real \<Rightarrow> Point \<Rightarrow> Point \<Rightarrow> nat" where
  "segmentSteps spacing start end' =
     (let distance = sqrt ((pt_x end' - pt_x start)\<^sup>2 + (pt_y end' - pt_y start)\<^sup>2)
      in nat (max 1 \<lceil>distance / spacing\<rceil>))"

definition segmentStitches :: "nat \<Rightarrow> Point \<Rightarrow> Point \<Rightarrow> string option \<Rightarrow> StitchPoint list" where
  "segmentStitches steps start end' c =
     map (\<lambda>step. let t = real step / real steps
                  in stitchAt (pt_x start + (pt_x end' - pt_x start) * t)
                              (pt_y start + (pt_y end' - pt_y start) * t) Normal c)
         [1..<Suc steps]"

fun pairStitches :: "real \<Rightarrow> string option \<Rightarrow> Point list \<Rightarrow> StitchPoint list" where
  "pairStitches spacing c (start # end' # rest) =
     stitchAt (pt_x start) (pt_y start) Jump c
     # segmentStitches (segmentSteps spacing start end') start end' c
     @ pairStitches spacing c rest"
| "pairStitches spacing c _ = []"

text \<open>
  The comparator orders by the projection \<open>d\<close> on the fill direction, descending when
  \<open>isReversed\<close>; the sort of the runtime is stable, as \<open>sort_key\<close> is.
\<close>

definition sortIntersections :: "real \<Rightarrow> real \<Rightarrow> Point \<Rightarrow> bool \<Rightarrow> Point list \<Rightarrow> Point list" where
  "sortIntersections dirX dirY lineStart isReversed intersections =
     (let d = (\<lambda>a. (pt_x a - pt_x lineStart) * dirX + (pt_y a - pt_y lineStart) * dirY)
      in if isReversed then sort_key (\<lambda>a. - d a) intersections
         else sort_key d intersections)"

text \<open>
  The two ends of scanline \<open>i\<close>, and the body of the scanline loop: \<open>None\<close> is the
  \<open>continue\<close> of a line with fewer than two intersections, which also leaves
  \<open>isReversed\<close> as it is.
\<close>

definition scanline :: "real \<Rightarrow> real \<Rightarrow> real \<Rightarrow> Point \<Rightarrow> real \<Rightarrow> int \<Rightarrow> Point \<times> Point" where
  "scanline dirX dirY diagonal center spacing i =
     (let offset = of_int i * spacing
      in (\<lparr>pt_x = pt_x center - dirY * offset - dirX * diagonal,
           pt_y = pt_y center + dirX * offset - dirY * diagonal\<rparr>,
          \<lparr>pt_x = pt_x center - dirY * offset + dirX * diagonal,
           pt_y = pt_y center + dirX * offset + dirY * diagonal\<rparr>))"

definition lineStitches ::
  "Point list list \<Rightarrow> real \<Rightarrow> string option \<Rightarrow> real \<Rightarrow> real \<Rightarrow> Point \<times> Point \<Rightarrow> bool
   \<Rightarrow> StitchPoint list option" where
  "lineStitches contours spacing c dirX dirY line isReversed =
     (case line of (lineStart, lineEnd) \<Rightarrow>
        let intersections = findIntersections lineStart lineEnd contours
        in if length intersections < 2 then None
           else Some (pairStitches spacing c
                        (sortIntersections dirX dirY lineStart isReversed intersections)))"

fun fillLoop ::
  "Point list list \<Rightarrow> real \<Rightarrow> string option \<Rightarrow> real \<Rightarrow> real \<Rightarrow> real \<Rightarrow> Point
   \<Rightarrow> int list \<Rightarrow> bool \<Rightarrow> StitchPoint list" where
  "fillLoop contours spacing c dirX dirY diagonal center [] isReversed = []"
| "fillLoop contours spacing c dirX dirY diagonal center (i # rest) isReversed =
     (case lineStitches contours spacing c dirX dirY
             (scanline dirX dirY diagonal center spacing i) isReversed of
        None \<Rightarrow> fillLoop contours spacing c dirX dirY diagonal center rest isReversed
      | Some lineOut \<Rightarrow>
          lineOut @ fillLoop contours spacing c dirX dirY diagonal center rest (\<not> isReversed))"

text \<open>
  \<open>generateFillStitches\<close>. The loop \<open>for (i = -numLines; i <= numLines; i++)\<close> never
  ends when \<open>numLines\<close> is infinite: with no contour point (unless the spacing is
  negative) and with spacing 0 and a positive diagonal; not returning is \<open>None\<close>. With
  spacing 0 and diagonal 0, \<open>numLines\<close> is NaN and the loop is not entered.
\<close>

definition generateFillStitches :: "Point list list \<Rightarrow> FillSettings \<Rightarrow> StitchPoint list option" where
  "generateFillStitches contours settings =
     (let angleRad = fill_angle settings * pi / 180;
          dirX = cos angleRad;
          dirY = sin angleRad
      in case StitchGenerator_calculateBounds contours of
           None \<Rightarrow> (if fill_spacing settings < 0 then Some [] else None)
         | Some bounds \<Rightarrow>
             let diagonal = sqrt ((cb_maxX bounds - cb_minX bounds)\<^sup>2
                                  + (cb_maxY bounds - cb_minY bounds)\<^sup>2)
             in if fill_spacing settings = 0
                then (if diagonal = 0 then Some [] else None)
                else
                  let numLines = \<lceil>diagonal / fill_spacing settings\<rceil>;
                      center = \<lparr>pt_x = (cb_minX bounds + cb_maxX bounds) / 2,
                                pt_y = (cb_minY bounds + cb_maxY bounds) / 2\<rparr>
                  in Some (fillLoop contours (fill_spacing settings) (fill_color settings)
                             dirX dirY diagonal center [- numLines..numLines] False))"

text \<open>
  \<open>generateOutlineStitches\<close>, for a positive spacing (the only one it is called
  with): a Jump to the first point, then for every segment not shorter than the spacing
  \<open>ceil(distance / spacing)\<close> Normal stitches.
\<close>

fun outlineSegments :: "real \<Rightarrow> string option \<Rightarrow> Point list \<Rightarrow> StitchPoint list" where
  "outlineSegments spacing c (start # end' # rest) =
     (let dx = pt_x end' - pt_x start;
          dy = pt_y end' - pt_y start;
          distance = sqrt (dx * dx + dy * dy)
      in (if distance < spacing then []
          else segmentStitches (nat \<lceil>distance / spacing\<rceil>) start end' c)
         @ outlineSegments spacing c (end' # rest))"
| "outlineSegments spacing c _ = []"

definition generateOutlineStitches :: "Point list \<Rightarrow> real \<Rightarrow> string option \<Rightarrow> StitchPoint list" where
  "generateOutlineStitches points spacing c =
     (case points of
        [] \<Rightarrow> []
      | p # _ \<Rightarrow> stitchAt (pt_x p) (pt_y p) Jump c # outlineSegments spacing c points)"

text \<open>
  The spacing of \<open>generateStitches\<close>, for a positive area and density (otherwise the
  runtime computes NaN, which the model does not have).
\<close>

definition stitchSpacing :: "GeneratorSettings \<Rightarrow> real" where
  "stitchSpacing settings =
     (let area = gen_width settings * gen_height settings;
          targetStitchCount = min MAX_RECOMMENDED_STITCHES
                                  (of_int \<lceil>area * gen_density settings\<rceil>);
          baseSpacing = sqrt (area / targetStitchCount)
      in max 0.3 (baseSpacing / gen_density settings))"

text \<open>\<open>(settings.angle + 90) % 360\<close>, the remainder of a truncated quotient.\<close>

definition underlayAngle :: "real \<Rightarrow> real" where
  "underlayAngle a = (a + 90) - 360 * of_int (trunc ((a + 90) / 360))"

text \<open>
  \<open>generateStitches\<close> of \<open>stitch-generator.ts\<close>, the version the pipeline imports:
  initial jump, underlay fill, fill, outlines, final jump. Every stitch gets
  \<open>settings.color\<close>.
\<close>

definition generateStitches :: "Point list list \<Rightarrow> GeneratorSettings \<Rightarrow> StitchPoint list option" where
  "generateStitches contours settings =
     (let spacing = stitchSpacing settings;
          initial = (case contours of
                       (p # _) # _ \<Rightarrow> [stitchAt (pt_x p) (pt_y p) Jump (gen_color settings)]
                     | _ \<Rightarrow> []);
          underlay =
            (if gen_underlay settings
             then generateFillStitches contours
                    \<lparr>fill_angle = underlayAngle (gen_angle settings),
                     fill_spacing = spacing * 2, fill_color = gen_color settings\<rparr>
             else Some [])
      in case underlay of
           None \<Rightarrow> None
         | Some underlayStitches \<Rightarrow>
             (case generateFillStitches contours
                     \<lparr>fill_angle = gen_angle settings, fill_spacing = spacing,
                      fill_color = gen_color settings\<rparr> of
                None \<Rightarrow> None
              | Some fillStitches \<Rightarrow>
                  let stitches = initial @ underlayStitches @ fillStitches
                        @ concat (map (\<lambda>contour. generateOutlineStitches contour spacing
                                                     (gen_color settings)) contours)
                  in Some (case stitches of
                             [] \<Rightarrow> []
                           | _ # _ \<Rightarrow> stitches @ [(last stitches)\<lparr>stitch_type := Jump\<rparr>])))"

text \<open>
  A contour that the horizontal line through its centre crosses three times.
\<close>

definition zigzag :: "Point list list" where
  "zigzag = [[\<lparr>pt_x = 0, pt_y = 0\<rparr>, \<lparr>pt_x = 1, pt_y = 4\<rparr>,
              \<lparr>pt_x = 2, pt_y = 0\<rparr>, \<lparr>pt_x = 3, pt_y = 4\<rparr>]]"

text \<open>
  \<open>ConversionPipeline.execute\<close>, steps 4 to 6 (the check of the contours, stitch
  generation, creation of the pattern), given the contours and the colours of the
  colour processor. The settings object it passes to \<open>generateStitches\<close> has the
  properties \<open>width, height, density, angle, underlay, pullCompensation\<close> and \<open>colors\<close>;
  it has no property \<open>color\<close>, so \<open>settings.color\<close> reads as \<open>undefined\<close> in the generator,
  and \<open>colors\<close> is not read there.
\<close>

record PipelineSettings =
  ps_width :: real
  ps_height :: real
  ps_density :: real
  ps_fillAngle :: real
  ps_useUnderlay :: bool
  ps_pullCompensation :: real

definition execute_createPattern ::
  "PipelineSettings \<Rightarrow> string list \<Rightarrow> Point list list \<Rightarrow> (error + StitchPattern) option" where
  "execute_createPattern settings processedColors contours =
     (if contours = [] then Some (Inl NoContoursFound)
      else case generateStitches contours
                  \<lparr>gen_width = ps_width settings,
                   gen_height = ps_height settings,
                   gen_density = ps_density settings,
                   gen_angle = ps_fillAngle settings,
                   gen_underlay = ps_useUnderlay settings,
                   gen_pullCompensation = ps_pullCompensation settings,
                   gen_color = None\<rparr> of
             None \<Rightarrow> None
           | Some generated \<Rightarrow>
               if generated = [] then Some (Inl FailedToGenerateStitches)
               else Some (Inr \<lparr>stitches = generated,
                               colors = processedColors,
                               dimensions = \<lparr>width = Fin (ps_width settings),
                                             height = Fin (ps_height settings)\<rparr>\<rparr>))"

text \<open>
  Vocabulary of the claim on scanlines: the consecutive pairs of a list, and the
  stitches emitted for one pair.
\<close>

fun pairsOf :: "'a list \<Rightarrow> ('a \<times> 'a) list" where
  "pairsOf (a # b # rest) = (a, b) # pairsOf rest"
| "pairsOf _ = []"

definition pairOutput :: "real \<Rightarrow> string option \<Rightarrow> Point \<times> Point \<Rightarrow> StitchPoint list" where
  "pairOutput spacing c pr =
     (case pr of (start, end') \<Rightarrow>
        stitchAt (pt_x start) (pt_y start) Jump c
        # segmentStitches (segmentSteps spacing start end') start end' c)"

definition pipelineDefaults :: PipelineSettings where
  "pipelineDefaults = \<lparr>ps_width = 100, ps_height = 100, ps_density = 2, ps_fillAngle = 0,
     ps_useUnderlay = False, ps_pullCompensation = 0\<rparr>"

text \<open>\<open>Number.isFinite\<close>: neither NaN nor an infinity.\<close>

fun js_isFinite :: "jsnum \<Rightarrow> bool" where
  "js_isFinite (Fin a) = True"
| "js_isFinite _ = False"

section \<open>Concrete patterns\<close>

text \<open>
  \<open>singleStitch\<close>: one Normal stitch at \<open>(0, 0)\<close>, dimensions 100 x 100 mm, one colour.
  \<open>jumpOf125\<close>: two stitches 12.5 mm apart. \<open>infiniteStitch\<close>: one stitch whose x is
  \<open>Infinity\<close>. \<open>nanStitch\<close>: the second stitch has a NaN coordinate.
\<close>

definition singleStitch :: StitchPattern where
  "singleStitch = \<lparr>stitches = [point 0 0 Normal], colors = [''#000000''],
      dimensions = \<lparr>width = Fin 100, height = Fin 100\<rparr>\<rparr>"

definition jumpOf125 :: StitchPattern where
  "jumpOf125 = \<lparr>stitches = [point 0 0 Normal, point 12.5 0 Normal], colors = [''#000000''],
      dimensions = \<lparr>width = Fin 100, height = Fin 100\<rparr>\<rparr>"

definition infiniteStitch :: StitchPattern where
  "infiniteStitch =
     \<lparr>stitches = [\<lparr>stitch_x = PInf, stitch_y = Fin 0, stitch_type = Normal,
                    stitch_color = Some ''#000000''\<rparr>],
      colors = [''#000000''],
      dimensions = \<lparr>width = Fin 100, height = Fin 100\<rparr>\<rparr>"

definition nanStitch :: StitchPattern where
  "nanStitch =
     \<lparr>stitches = [point 0 0 Normal,
                   \<lparr>stitch_x = Fin 1, stitch_y = NaN, stitch_type = Normal,
                    stitch_color = Some ''#000000''\<rparr>],
      colors = [''#000000''],
      dimensions = \<lparr>width = Fin 100, height = Fin 100\<rparr>\<rparr>"

section \<open>The DST record\<close>

lemma clamp_id:
  "\<bar>r\<bar> \<le> 121 \<Longrightarrow> js_max (js_neg MAX_STITCH) (js_min MAX_STITCH (Fin r)) = Fin r"
  by (auto simp: js_max_def js_min_def MAX_STITCH_def)

lemma to_int32_small:
  "\<bar>k\<bar> < 2 ^ 31 \<Longrightarrow> to_int32 (Fin (of_int k)) = k"
  by (auto simp: trunc_def)

lemma encodeStitchDelta_int:
  assumes "\<bar>dx\<bar> \<le> 121" "\<bar>dy\<bar> \<le> 121"
  shows "encodeStitchDelta (Fin (of_int dx)) (Fin (of_int dy)) t =
     [\<bar>dy\<bar> AND 0x0F, \<bar>dx\<bar> AND 0x0F,
      (drop_bit 4 (\<bar>dy\<bar> AND 0xF0) OR drop_bit 4 (\<bar>dx\<bar> AND 0xF0))
        OR (if dx < 0 then 0x20 else 0) OR (if dy < 0 then 0x40 else 0) OR typeBits t]"
proof -
  have cx: "js_max (js_neg MAX_STITCH) (js_min MAX_STITCH (Fin (of_int dx))) = Fin (of_int dx)"
    using assms(1) by (intro clamp_id) (simp flip: of_int_abs)
  have cy: "js_max (js_neg MAX_STITCH) (js_min MAX_STITCH (Fin (of_int dy))) = Fin (of_int dy)"
    using assms(2) by (intro clamp_id) (simp flip: of_int_abs)
  have ax: "to_int32 (Fin \<bar>of_int dx\<bar>) = \<bar>dx\<bar>"
    using assms(1) to_int32_small [of "\<bar>dx\<bar>"] by simp
  have ay: "to_int32 (Fin \<bar>of_int dy\<bar>) = \<bar>dy\<bar>"
    using assms(2) to_int32_small [of "\<bar>dy\<bar>"] by simp
  show ?thesis
    unfolding encodeStitchDelta_def Let_def cx cy js_abs.simps ax ay
    by (simp add: ac_simps)
qed

lemma sign_bits_int:
  assumes "t \<in> {Normal, Jump, Trim}"
  shows "bit ((drop_bit 4 (\<bar>dy\<bar> AND 0xF0) OR drop_bit 4 (\<bar>dx\<bar> AND 0xF0))
        OR (if dx < 0 then 0x20 else 0) OR (if dy < 0 then 0x40 else 0) OR typeBits t :: int) 5 \<longleftrightarrow> dx < 0"
   and "bit ((drop_bit 4 (\<bar>dy\<bar> AND 0xF0) OR drop_bit 4 (\<bar>dx\<bar> AND 0xF0))
        OR (if dx < 0 then 0x20 else 0) OR (if dy < 0 then 0x40 else 0) OR typeBits t :: int) 6 \<longleftrightarrow> dy < 0"
  using assms by (auto simp: bit_simps typeBits_def)

text \<open>
  Claim C4. For every delta \<open>(dx, dy)\<close> of integers with \<open>|dx| \<le> 121\<close> and
  \<open>|dy| \<le> 121\<close> the record is \<open>[b0, b1, b2]\<close> with \<open>b0 = |dy| & 0x0F\<close>,
  \<open>b1 = |dx| & 0x0F\<close> and \<open>b2\<close> the two high nibbles shifted right by 4 and OR-ed
  together, OR \<open>0x20\<close> when \<open>dx < 0\<close>, OR \<open>0x40\<close> when \<open>dy < 0\<close>, OR the type bits
  (Normal \<open>0x03\<close>, Jump \<open>0x83\<close>, Stop \<open>0xC3\<close>, End \<open>0xF3\<close>). For Normal and Jump the
  bits \<open>0x20\<close> and \<open>0x40\<close> of the finished byte are exactly the two signs (the type bits of
  Stop and End contain them already). Delta \<open>(-1, -1)\<close> of type Normal encodes to
  \<open>[1, 1, 0x63]\<close>.
\<close>

theorem encodeStitchDelta_record:
  assumes "\<bar>dx\<bar> \<le> 121" and "\<bar>dy\<bar> \<le> 121"
  shows "encodeStitchDelta (Fin (of_int dx)) (Fin (of_int dy)) t =
        [\<bar>dy\<bar> AND 0x0F, \<bar>dx\<bar> AND 0x0F,
         (drop_bit 4 (\<bar>dy\<bar> AND 0xF0) OR drop_bit 4 (\<bar>dx\<bar> AND 0xF0))
           OR (if dx < 0 then 0x20 else 0) OR (if dy < 0 then 0x40 else 0) OR typeBits t]
      \<and> (t \<in> {Normal, Jump} \<longrightarrow>
           (bit (encodeStitchDelta (Fin (of_int dx)) (Fin (of_int dy)) t ! 2) 5 \<longleftrightarrow> dx < 0) \<and>
           (bit (encodeStitchDelta (Fin (of_int dx)) (Fin (of_int dy)) t ! 2) 6 \<longleftrightarrow> dy < 0))
      \<and> typeBits Normal = 0x03 \<and> typeBits Jump = 0x83 \<and> typeBits Stop = 0xC3
      \<and> typeBits End = 0xF3
      \<and> encodeStitchDelta (Fin (-1)) (Fin (-1)) Normal = [1, 1, 0x63]"
proof (intro conjI impI)
  show e: "encodeStitchDelta (Fin (of_int dx)) (Fin (of_int dy)) t =
        [\<bar>dy\<bar> AND 0x0F, \<bar>dx\<bar> AND 0x0F,
         (drop_bit 4 (\<bar>dy\<bar> AND 0xF0) OR drop_bit 4 (\<bar>dx\<bar> AND 0xF0))
           OR (if dx < 0 then 0x20 else 0) OR (if dy < 0 then 0x40 else 0) OR typeBits t]"
    using assms by (rule encodeStitchDelta_int)
  assume t: "t \<in> {Normal, Jump}"
  then have t': "t \<in> {Normal, Jump, Trim}" by auto
  show "bit (encodeStitchDelta (Fin (of_int dx)) (Fin (of_int dy)) t ! 2) 5 \<longleftrightarrow> dx < 0"
    unfolding e using sign_bits_int(1)[OF t', of dy dx] by simp
  show "bit (encodeStitchDelta (Fin (of_int dx)) (Fin (of_int dy)) t ! 2) 6 \<longleftrightarrow> dy < 0"
    unfolding e using sign_bits_int(2)[OF t', of dy dx] by simp
next
  show "encodeStitchDelta (Fin (-1)) (Fin (-1)) Normal = [1, 1, 0x63]"
    using encodeStitchDelta_int [of "-1" "-1" Normal] by (simp add: typeBits_def)
qed (simp_all add: typeBits_def)

theorem encodeStitchDelta_record_witness:
  "\<bar>-1 :: int\<bar> \<le> 121 \<and> \<bar>-7 :: int\<bar> \<le> 121 \<and> Jump \<in> {Normal, Jump} \<and>
   encodeStitchDelta (Fin (of_int (-1))) (Fin (of_int (-7))) Jump = [7, 1, 0xE3] \<and>
   bit (encodeStitchDelta (Fin (of_int (-1))) (Fin (of_int (-7))) Jump ! 2) 5 \<and>
   bit (encodeStitchDelta (Fin (of_int (-1))) (Fin (of_int (-7))) Jump ! 2) 6"
  using encodeStitchDelta_record [of "-1" "-7" Jump] by (simp add: typeBits_def)

section \<open>The length of the DST output\<close>

lemma length_encodeStitchDelta: "length (encodeStitchDelta dx dy t) = 3"
  by (simp add: encodeStitchDelta_def Let_def)

lemma length_encodeDelta: "length (encodeDelta d) = 3"
  by (cases d) (simp add: encodeDelta_def length_encodeStitchDelta)

lemma length_concat_encodeDelta: "length (concat (map encodeDelta ds)) = 3 * length ds"
  by (induction ds) (simp_all add: length_encodeDelta)

lemma createHeader_length: "createHeader fmt p = Inr h \<Longrightarrow> length h = 512"
  by (auto simp: createHeader_def Let_def HEADER_SIZE_def split: if_splits)

lemma js_lt_Fin_stepCount:
  assumes "js_lt (Fin (real i)) steps" "steps \<noteq> PInf" shows "i < stepCount steps"
proof (cases steps)
  case (Fin s)
  with assms(1) have "real i < s" by simp
  also have "s \<le> of_int \<lceil>s\<rceil>" by (rule le_of_int_ceiling)
  finally have "real_of_int (int i) < real_of_int \<lceil>s\<rceil>" by simp
  then have "int i < \<lceil>s\<rceil>" by (simp only: of_int_less_iff)
  with Fin show ?thesis by simp
qed (use assms in auto)

lemma stepCount_le:
  assumes "\<not> js_lt (Fin (real i)) steps" shows "steps \<noteq> PInf \<and> stepCount steps \<le> i"
proof (cases steps)
  case (Fin s)
  with assms have "s \<le> real i" by simp
  with Fin show ?thesis by simp
qed (use assms in auto)

text \<open>If the inner loop returns, \<open>steps\<close> was not infinite and it pushed the records
  of the indices from \<open>i\<close> up to \<open>steps\<close>.\<close>

lemma jumpLoop_length:
  assumes "jumpLoop dx dy steps i data = Some r"
  shows "steps \<noteq> PInf \<and> length r = length data + (stepCount steps - i)"
proof (rule jumpLoop.raw_induct
    [where P = "\<lambda>dx dy steps i data r. steps \<noteq> PInf \<and> length r = length data + (stepCount steps - i)",
     OF _ assms])
  fix f :: "jsnum \<Rightarrow> jsnum \<Rightarrow> jsnum \<Rightarrow> nat \<Rightarrow> delta list \<Rightarrow> delta list option"
  fix dx dy steps i data r
  assume IH: "\<And>dx dy steps i data r. f dx dy steps i data = Some r \<Longrightarrow>
      steps \<noteq> PInf \<and> length r = length data + (stepCount steps - i)"
  assume eq: "(if js_lt (Fin (real i)) steps
      then f dx dy steps (Suc i) (data @ [(stepDelta dx steps i, stepDelta dy steps i, Jump)])
      else Some data) = Some r"
  show "steps \<noteq> PInf \<and> length r = length data + (stepCount steps - i)"
  proof (cases "js_lt (Fin (real i)) steps")
    case True
    with eq have rec: "f dx dy steps (Suc i) (data @ [(stepDelta dx steps i, stepDelta dy steps i, Jump)]) = Some r"
      by simp
    from IH[OF rec] have ne: "steps \<noteq> PInf" and
       len: "length r = length data + 1 + (stepCount steps - Suc i)" by simp_all
    from js_lt_Fin_stepCount[OF True ne] len ne show ?thesis by simp
  next
    case False
    with eq have "r = data" by simp
    with stepCount_le[OF False] show ?thesis by simp
  qed
qed

text \<open>With a finite \<open>steps\<close> the inner loop returns, and this is what it pushes.\<close>

lemma jumpLoop_Fin:
  "jumpLoop dx dy (Fin s) i data =
     Some (data @ map (\<lambda>k. (stepDelta dx (Fin s) k, stepDelta dy (Fin s) k, Jump)) [i..<nat \<lceil>s\<rceil>])"
proof (induction "nat \<lceil>s\<rceil> - i" arbitrary: i data)
  case 0
  then have "\<not> real i < s"
    using stepCount_le[of i "Fin s"] js_lt_Fin_stepCount[of i "Fin s"] by auto
  with 0 show ?case by (subst jumpLoop.simps) simp
next
  case (Suc n)
  then have lt: "i < nat \<lceil>s\<rceil>" by simp
  then have "int i < \<lceil>s\<rceil>" by linarith
  then have "real_of_int (int i) < s" by (simp only: less_ceiling_iff)
  then have "real i < s" by simp
  moreover have "n = nat \<lceil>s\<rceil> - Suc i" using Suc.hyps(2) by simp
  ultimately show ?case
    using Suc.hyps(1)[of "Suc i"] lt
    by (subst jumpLoop.simps) (simp add: upt_conv_Cons)
qed

lemma stitchLoop_length:
  "stitchLoop lastX lastY ss data = Some r \<Longrightarrow> length r = length data + groupSizes lastX lastY ss"
proof (induction ss arbitrary: lastX lastY data)
  case Nil
  then show ?case by simp
next
  case (Cons s ss)
  let ?dx = "js_sub (stitch_x s) lastX" and ?dy = "js_sub (stitch_y s) lastY"
  show ?case
  proof (cases "js_gt (js_abs ?dx) MAX_STITCH \<or> js_gt (js_abs ?dy) MAX_STITCH")
    case True
    with Cons.prems obtain data' where
      j: "jumpLoop ?dx ?dy (splitSteps ?dx ?dy) 0 data = Some data'" and
      l: "stitchLoop (stitch_x s) (stitch_y s) ss data' = Some r"
      by (auto simp: Let_def split: option.splits)
    from jumpLoop_length[OF j] Cons.IH[OF l] True show ?thesis
      by (simp add: Let_def)
  next
    case False
    with Cons.prems have
      l: "stitchLoop (stitch_x s) (stitch_y s) ss (data @ [(?dx, ?dy, stitch_type s)]) = Some r"
      by (simp add: Let_def)
    from Cons.IH[OF l] False show ?thesis by (simp add: Let_def)
  qed
qed

lemma stitchDeltas_length:
  "stitchDeltas ss = Some ds \<Longrightarrow> length ds = 1 + groupSizes (Fin 0) (Fin 0) ss + 1"
  by (auto simp: stitchDeltas_def split: option.splits dest: stitchLoop_length)

lemma DSTWriter_write_length:
  assumes "DSTWriter_write fmt pattern = Some (Inr bytes)"
  shows "length bytes = 512 + 3 * stitchesEmitted pattern"
proof -
  from assms obtain header stitchData where
    h: "createHeader fmt (normalizeCoordinates pattern) = Inr header" and
    e: "encodeStitches (stitches (normalizeCoordinates pattern)) = Some stitchData" and
    b: "bytes = header @ stitchData"
    by (auto simp: DSTWriter_write_def Let_def split: sum.splits option.splits)
  from e obtain ds where
    d: "stitchDeltas (stitches (normalizeCoordinates pattern)) = Some ds" and
    s: "stitchData = concat (map encodeDelta ds)"
    by (auto simp: encodeStitches_def)
  from stitchDeltas_length[OF d] have "length ds = stitchesEmitted pattern"
    by (simp add: stitchesEmitted_def)
  with createHeader_length[OF h] b s show ?thesis
    by (simp add: length_concat_encodeDelta)
qed

lemma singleStitch_written:
  "map_option (map_sum id length) (DSTWriter_write numberToString singleStitch) = Some (Inr 521)"
  by (simp add: singleStitch_def DSTWriter_write_def DSTWriter_validatePattern_def point_def
     MAX_STITCHES_def js_gt_def normalizeCoordinates_def js_min_list_def js_min_def js_sub_def
     PPMM_def createHeader_def headerText_def DSTWriter_calculateBounds_def js_max_list_def js_max_def
     CRLF_def HEADER_SIZE_def trunc_def encodeStitches_def stitchDeltas_def MAX_STITCH_def
     length_encodeDelta Let_def)


lemma foldl_js_min_finite:
  "\<forall>v\<in>set xs. js_isFinite v \<Longrightarrow> js_isFinite a \<Longrightarrow> js_isFinite (foldl js_min a xs)"
proof (induction xs arbitrary: a)
  case (Cons v xs)
  then obtain r q where "a = Fin r" "v = Fin q"
    by (cases a; cases v) auto
  then have "js_isFinite (js_min a v)" by (simp add: js_min_def)
  with Cons show ?case by simp
qed simp

lemma js_min_list_finite:
  assumes "xs \<noteq> []" "\<forall>v\<in>set xs. js_isFinite v" shows "js_isFinite (js_min_list xs)"
proof -
  from assms obtain v vs where xs: "xs = v # vs" by (cases xs) auto
  with assms obtain q where "v = Fin q" by (cases v) auto
  then have "js_isFinite (js_min PInf v)" by (simp add: js_min_def)
  with assms xs show ?thesis by (simp add: js_min_list_def foldl_js_min_finite)
qed

lemma normalizeCoordinates_finite:
  assumes "\<forall>s\<in>set (stitches p). js_isFinite (stitch_x s) \<and> js_isFinite (stitch_y s)"
  shows "\<forall>s\<in>set (stitches (normalizeCoordinates p)). js_isFinite (stitch_x s) \<and> js_isFinite (stitch_y s)"
proof (cases "stitches p = []")
  case True
  then show ?thesis by (simp add: normalizeCoordinates_def)
next
  case False
  from False assms have "js_isFinite (js_min_list (map stitch_x (stitches p)))"
    by (intro js_min_list_finite) auto
  then obtain mx where mx: "js_min_list (map stitch_x (stitches p)) = Fin mx"
    by (cases "js_min_list (map stitch_x (stitches p))") auto
  from False assms have "js_isFinite (js_min_list (map stitch_y (stitches p)))"
    by (intro js_min_list_finite) auto
  then obtain my where my: "js_min_list (map stitch_y (stitches p)) = Fin my"
    by (cases "js_min_list (map stitch_y (stitches p))") auto
  show ?thesis
  proof
    fix s assume "s \<in> set (stitches (normalizeCoordinates p))"
    then obtain s0 where s0: "s0 \<in> set (stitches p)" and
      s: "s = s0\<lparr>stitch_x := js_round (js_mul (js_sub (stitch_x s0) (Fin mx)) PPMM),
                 stitch_y := js_round (js_mul (js_sub (stitch_y s0) (Fin my)) PPMM)\<rparr>"
      by (auto simp: normalizeCoordinates_def mx my)
    from assms s0 obtain a b where "stitch_x s0 = Fin a" "stitch_y s0 = Fin b"
      by (cases "stitch_x s0"; cases "stitch_y s0") auto
    with s show "js_isFinite (stitch_x s) \<and> js_isFinite (stitch_y s)"
      by (simp add: js_sub_def PPMM_def)
  qed
qed

lemma stitchLoop_finite:
  assumes "\<forall>s\<in>set ss. js_isFinite (stitch_x s) \<and> js_isFinite (stitch_y s)"
    and "js_isFinite lastX" "js_isFinite lastY"
  shows "\<exists>r. stitchLoop lastX lastY ss data = Some r"
  using assms
proof (induction ss arbitrary: lastX lastY data)
  case Nil
  then show ?case by simp
next
  case (Cons s ss)
  then obtain a b lx ly where c: "stitch_x s = Fin a" "stitch_y s = Fin b" "lastX = Fin lx" "lastY = Fin ly"
    by (cases "stitch_x s"; cases "stitch_y s"; cases lastX; cases lastY) auto
  have st: "\<exists>q. splitSteps (js_sub (Fin a) (Fin lx)) (js_sub (Fin b) (Fin ly)) = Fin q"
    by (simp add: splitSteps_def js_sub_def MAX_JUMP_def js_max_def)
  then obtain q where q: "splitSteps (js_sub (Fin a) (Fin lx)) (js_sub (Fin b) (Fin ly)) = Fin q" ..
  have rest: "\<And>data'. \<exists>r. stitchLoop (Fin a) (Fin b) ss data' = Some r"
    using Cons.IH[of "Fin a" "Fin b"] Cons.prems(1) by simp
  show ?case
    using rest by (simp add: c Let_def q jumpLoop_Fin)
qed

text \<open>The writer returns on every pattern whose coordinates are all finite.\<close>

lemma DSTWriter_write_returns:
  assumes "\<forall>s\<in>set (stitches p). js_isFinite (stitch_x s) \<and> js_isFinite (stitch_y s)"
  shows "\<exists>r. DSTWriter_write fmt p = Some r"
proof -
  have "\<exists>r. stitchLoop (Fin 0) (Fin 0) (stitches (normalizeCoordinates p))
          [(Fin 0, Fin 0, Jump)] = Some r"
    by (rule stitchLoop_finite[OF normalizeCoordinates_finite[OF assms]]) simp_all
  then obtain ds where "stitchDeltas (stitches (normalizeCoordinates p)) = Some ds"
    by (auto simp: stitchDeltas_def)
  then show ?thesis
    by (auto simp: DSTWriter_write_def Let_def encodeStitches_def split: sum.splits)
qed

text \<open>
  Claim C2. Whenever \<open>DSTWriter.write\<close> returns a buffer, its length is
  \<open>512 + 3 * stitchesEmitted\<close>, where \<open>stitchesEmitted\<close> counts the leading \<open>(0,0)\<close> Jump
  record, one record or one split group per stitch, and the trailing \<open>(0,0)\<close> End record;
  the pattern with a single Normal stitch at \<open>(0,0)\<close> and dimensions 100 x 100 is written
  as exactly 521 bytes.
\<close>

theorem DST_output_length:
  assumes "DSTWriter_write fmt pattern = Some (Inr bytes)"
  shows "length bytes = 512 + 3 * stitchesEmitted pattern
     \<and> map_option (map_sum id length) (DSTWriter_write numberToString singleStitch) = Some (Inr 521)"
  using DSTWriter_write_length[OF assms] singleStitch_written by simp

theorem DST_output_length_witness:
  "\<exists>bytes. DSTWriter_write numberToString singleStitch = Some (Inr bytes)
     \<and> length bytes = 512 + 3 * stitchesEmitted singleStitch
     \<and> stitchesEmitted singleStitch = 3 \<and> length bytes = 521"
proof -
  from singleStitch_written obtain bytes where
    w: "DSTWriter_write numberToString singleStitch = Some (Inr bytes)" and l: "length bytes = 521"
    by (cases "DSTWriter_write numberToString singleStitch") (auto simp: map_sum_def split: sum.splits)
  from DST_output_length[OF w] l have "stitchesEmitted singleStitch = 3" by simp
  with DST_output_length[OF w] w l show ?thesis by simp
qed

section \<open>Large movements\<close>

text \<open>
  Claim C3, at the pattern \<open>jumpOf125\<close>. After normalisation the second stitch is 125
  units from the first. The writer emits two Jump records of 63 units each: every record
  carries \<open>round(dx * (i + 1) / steps - dx * i / steps)\<close>, the rounded difference, so the
  records sum to 126 and not to 125. The difference of the rounded terms, which the claim
  states, is 62 for the second record.
\<close>

theorem split_does_not_reach_the_stitch:
  "stitches (normalizeCoordinates jumpOf125) = [point 0 0 Normal, point 125 0 Normal]
   \<and> stitchDeltas (stitches (normalizeCoordinates jumpOf125)) =
       Some [(Fin 0, Fin 0, Jump), (Fin 0, Fin 0, Normal),
             (Fin 63, Fin 0, Jump), (Fin 63, Fin 0, Jump), (Fin 0, Fin 0, End)]
   \<and> js_sub (js_round (js_div (js_mul (Fin 125) (Fin 2)) (Fin 2)))
             (js_round (js_div (js_mul (Fin 125) (Fin 1)) (Fin 2))) = Fin 62"
  by (simp add: jumpOf125_def normalizeCoordinates_def point_def js_min_list_def js_min_def
      js_sub_def PPMM_def stitchDeltas_def Let_def js_gt_def MAX_STITCH_def MAX_JUMP_def
      splitSteps_def js_max_def jumpLoop_Fin stepDelta_def upt_conv_Cons)

section \<open>Coordinates that are not finite\<close>

text \<open>
  Claim C7 as stated fails: the pattern \<open>infiniteStitch\<close>, whose only stitch has the
  x coordinate \<open>Infinity\<close>, is written as a buffer of 521 bytes. The validation tests
  \<open>isNaN\<close> only, and the normalisation turns the coordinate into NaN afterwards.
\<close>

theorem infinite_coordinate_is_written:
  "map_option (map_sum id length) (DSTWriter_write numberToString infiniteStitch) = Some (Inr 521)"
  by (simp add: infiniteStitch_def DSTWriter_write_def DSTWriter_validatePattern_def point_def
     MAX_STITCHES_def js_gt_def normalizeCoordinates_def js_min_list_def js_min_def js_sub_def
     PPMM_def createHeader_def headerText_def DSTWriter_calculateBounds_def js_max_list_def js_max_def
     CRLF_def HEADER_SIZE_def trunc_def encodeStitches_def stitchDeltas_def MAX_STITCH_def
     length_encodeDelta Let_def)

lemma firstNaN_Some:
  "s \<in> set ss \<Longrightarrow> js_isNaN (stitch_x s) \<or> js_isNaN (stitch_y s) \<Longrightarrow> \<exists>k. firstNaN i ss = Some k"
  by (induction ss arbitrary: i) auto

text \<open>
  Claim C7, amended: \<open>DSTWriter.write\<close> fails, with the error
  \<open>Failed to create DST file\<close> and no output, whenever some stitch of the pattern has a
  NaN x or y coordinate.
\<close>

theorem DSTWriter_write_rejects_NaN:
  assumes "s \<in> set (stitches pattern)" and "js_isNaN (stitch_x s) \<or> js_isNaN (stitch_y s)"
  shows "\<exists>e. DSTWriter_write fmt pattern = Some (Inl (FailedToCreateDSTFile e))"
proof -
  from firstNaN_Some[OF assms] obtain k where "firstNaN 0 (stitches pattern) = Some k" by blast
  then have "\<exists>e. DSTWriter_validatePattern pattern = Inl e"
    by (simp add: DSTWriter_validatePattern_def)
  then show ?thesis by (auto simp: DSTWriter_write_def)
qed

theorem DSTWriter_write_rejects_NaN_witness:
  "\<exists>e. DSTWriter_write numberToString nanStitch = Some (Inl (FailedToCreateDSTFile e))"
  using DSTWriter_write_rejects_NaN
    [of "\<lparr>stitch_x = Fin 1, stitch_y = NaN, stitch_type = Normal, stitch_color = Some ''#000000''\<rparr>"
        nanStitch numberToString]
  by (simp add: nanStitch_def)

section \<open>Conversion to DST\<close>

text \<open>
  Claim C1, at the pattern \<open>singleStitch\<close> (one stitch, no NaN, one colour, 100 x 100 mm).
  The converter's own checks pass, the conversion to machine coordinates multiplies the
  dimensions to 1000 x 1000, and \<open>DSTWriter.write\<close> then rejects the pattern because
  1000 exceeds its limit of 400: \<open>convertToFormat\<close> fails, whatever the colour validation
  returns.
\<close>

theorem convertToFormat_rejects_100mm:
  "FormatConverter_validatePattern singleStitch = Inr ()
   \<and> validateFormatLimits singleStitch DST = Inr ()
   \<and> dimensions (convertToMachineFormat singleStitch) = \<lparr>width = Fin 1000, height = Fin 1000\<rparr>
   \<and> convertToFormat validateThreadColor writers fmt singleStitch DST =
       Some (Inl (FailedToCreateDSTFile DimensionsExceed400mm))"
  by (simp add: singleStitch_def convertToFormat_def FormatConverter_validatePattern_def point_def
    validateFormatLimits_def FORMAT_LIMITS_def js_max_def js_gt_def convertToMachineFormat_def
    DSTWriter_write_def DSTWriter_validatePattern_def MAX_STITCHES_def js_min_list_def js_min_def
    js_sub_def)

section \<open>Idempotence of the settings sanitizer\<close>












section \<open>Colour quantization\<close>

lemma foldl_closerStep:
  assumes "xs \<noteq> []"
  shows "\<exists>k. isNearest c xs k \<and>
     foldl (closerStep c) (p0, PInf) xs = (xs ! k, Fin (calculateColorDistance c (rgbColor (thread_rgb (xs ! k)))))"
  using assms
proof (induction xs rule: rev_induct)
  case Nil
  then show ?case by simp
next
  case (snoc x xs)
  let ?d = "\<lambda>t. calculateColorDistance c (rgbColor (thread_rgb t))"
  show ?case
  proof (cases "xs = []")
    case True
    then show ?thesis
      by (intro exI[of _ 0]) (simp add: closerStep_def isNearest_def Let_def)
  next
    case False
    from snoc.IH[OF False] obtain k where
      n: "isNearest c xs k" and f: "foldl (closerStep c) (p0, PInf) xs = (xs ! k, Fin (?d (xs ! k)))"
      by blast
    from n have k: "k < length xs" by (simp add: isNearest_def)
    show ?thesis
    proof (cases "?d x < ?d (xs ! k)")
      case True
      have "isNearest c (xs @ [x]) (length xs)"
        unfolding isNearest_def
      proof (intro conjI allI impI)
        fix j assume "j < length (xs @ [x])"
        then consider "j < length xs" | "j = length xs" by fastforce
        then show "?d ((xs @ [x]) ! length xs) \<le> ?d ((xs @ [x]) ! j)"
        proof cases
          case 1
          with n have "?d (xs ! k) \<le> ?d (xs ! j)" by (simp add: isNearest_def)
          with True 1 show ?thesis by (simp add: nth_append)
        qed simp
      next
        fix j assume j: "j < length xs"
        with n have "?d (xs ! k) \<le> ?d (xs ! j)" by (simp add: isNearest_def)
        with True j show "?d ((xs @ [x]) ! length xs) < ?d ((xs @ [x]) ! j)"
          by (simp add: nth_append)
      qed simp
      moreover have "foldl (closerStep c) (p0, PInf) (xs @ [x]) = (x, Fin (?d x))"
        using True by (simp add: f closerStep_def Let_def)
      ultimately show ?thesis by (intro exI[of _ "length xs"]) simp
    next
      case False
      have "isNearest c (xs @ [x]) k"
        unfolding isNearest_def
      proof (intro conjI allI impI)
        fix j assume "j < length (xs @ [x])"
        then consider "j < length xs" | "j = length xs" by fastforce
        then show "?d ((xs @ [x]) ! k) \<le> ?d ((xs @ [x]) ! j)"
        proof cases
          case 1
          with n k show ?thesis by (simp add: isNearest_def nth_append)
        next
          case 2
          with False k show ?thesis by (simp add: nth_append)
        qed
      next
        fix j assume j: "j < k"
        with n k show "?d ((xs @ [x]) ! k) < ?d ((xs @ [x]) ! j)"
          by (simp add: isNearest_def nth_append)
      qed (use k in simp)
      moreover have "foldl (closerStep c) (p0, PInf) (xs @ [x]) = ((xs @ [x]) ! k, Fin (?d ((xs @ [x]) ! k)))"
        using False k by (simp add: f closerStep_def Let_def nth_append)
      ultimately show ?thesis by blast
    qed
  qed
qed

lemma findClosestColor_nearest:
  assumes "palette \<noteq> []"
  shows "\<exists>k. isNearest c palette k \<and> findClosestColor c palette = Some (palette ! k)"
proof -
  from assms obtain p0 ps where p: "palette = p0 # ps" by (cases palette) auto
  from foldl_closerStep[OF assms, of c p0] obtain k where
    "isNearest c palette k" "fst (foldl (closerStep c) (p0, PInf) palette) = palette ! k"
    by force
  then show ?thesis unfolding findClosestColor_def p by auto
qed


lemma GRAYSCALE_COLORS_eq:
  "GRAYSCALE_COLORS =
    [\<lparr>thread_name = ''Black'', thread_hex = ''#000000'', thread_rgb = \<lparr>rgb_r = 0, rgb_g = 0, rgb_b = 0\<rparr>\<rparr>,
     \<lparr>thread_name = ''Dark Gray'', thread_hex = ''#404040'', thread_rgb = \<lparr>rgb_r = 64, rgb_g = 64, rgb_b = 64\<rparr>\<rparr>,
     \<lparr>thread_name = ''Medium Gray'', thread_hex = ''#808080'', thread_rgb = \<lparr>rgb_r = 128, rgb_g = 128, rgb_b = 128\<rparr>\<rparr>,
     \<lparr>thread_name = ''Light Gray'', thread_hex = ''#C0C0C0'', thread_rgb = \<lparr>rgb_r = 192, rgb_g = 192, rgb_b = 192\<rparr>\<rparr>,
     \<lparr>thread_name = ''White'', thread_hex = ''#FFFFFF'', thread_rgb = \<lparr>rgb_r = 255, rgb_g = 255, rgb_b = 255\<rparr>\<rparr>]"
  by (simp add: GRAYSCALE_COLORS_def THREAD_COLORS_def)












lemma palettes_nonempty: "paletteFor colorMode \<noteq> []"
  by (cases colorMode) (simp_all add: paletteFor_def GRAYSCALE_COLORS_eq THREAD_COLORS_def)

lemma findClosestColor_member:
  assumes "palette \<noteq> []" shows "\<exists>tc\<in>set palette. findClosestColor c palette = Some tc"
proof -
  from findClosestColor_nearest[OF assms, of c] obtain k where
    "isNearest c palette k" "findClosestColor c palette = Some (palette ! k)" by blast
  then show ?thesis by (auto simp: isNearest_def)
qed

lemma pixelThreadColor_member:
  "\<exists>tc\<in>set (paletteFor colorMode). pixelThreadColor colorMode r g b = Some tc"
  using findClosestColor_member[OF palettes_nonempty[of colorMode]]
  by (cases colorMode) (simp_all add: pixelThreadColor_def paletteFor_def Let_def)

lemma pixelOk_Suc:
  "pixelOk colorMode (r # g # b # a # d) (r' # g' # b' # a' # out) (Suc p) = pixelOk colorMode d out p"
  by (simp add: pixelOk_def add.commute)

lemma quantizeLoop_result:
  assumes "distinct used"
  shows "\<exists>out used'. quantizeLoop colorMode d used = Inr (out, used')
      \<and> length out = length d \<and> distinct used'
      \<and> set used' \<subseteq> set used \<union> thread_hex ` set (paletteFor colorMode)
      \<and> (\<forall>p. 4 * p + 3 < length d \<longrightarrow> pixelOk colorMode d out p)"
  using assms
proof (induction colorMode d used rule: quantizeLoop.induct)
  case (1 colorMode r g b a rest usedColors)
  from pixelThreadColor_member[of colorMode r g b] obtain tc where
    tc: "tc \<in> set (paletteFor colorMode)" "pixelThreadColor colorMode r g b = Some tc" by blast
  have d: "distinct (setAdd usedColors (thread_hex tc))"
    using "1.prems" by (simp add: setAdd_def)
  from "1.IH"[OF tc(2) d] obtain out used' where
    q: "quantizeLoop colorMode rest (setAdd usedColors (thread_hex tc)) = Inr (out, used')" and
    l: "length out = length rest" and dd: "distinct used'" and
    s: "set used' \<subseteq> set (setAdd usedColors (thread_hex tc)) \<union> thread_hex ` set (paletteFor colorMode)" and
    p: "\<forall>p. 4 * p + 3 < length rest \<longrightarrow> pixelOk colorMode rest out p"
    by blast
  let ?out = "rgb_r (thread_rgb tc) # rgb_g (thread_rgb tc) # rgb_b (thread_rgb tc) # a # out"
  have res: "quantizeLoop colorMode (r # g # b # a # rest) usedColors = Inr (?out, used')"
    by (simp add: tc(2) q)
  have sub: "set used' \<subseteq> set usedColors \<union> thread_hex ` set (paletteFor colorMode)"
    using s tc(1) by (auto simp: setAdd_def split: if_splits)
  have pix: "pixelOk colorMode (r # g # b # a # rest) ?out p" if "4 * p + 3 < length (r # g # b # a # rest)" for p
  proof (cases p)
    case 0
    then show ?thesis by (simp add: pixelOk_def tc(2))
  next
    case (Suc p')
    with that have "4 * p' + 3 < length rest" by simp
    with p Suc show ?thesis by (simp only: pixelOk_Suc)
  qed
  show ?case using res l dd sub pix by simp
qed (auto simp: pixelOk_def)

lemma processImage_result:
  assumes "image_width img > 0" "image_height img > 0"
    and "length (image_data img) = 4 * image_width img * image_height img"
  shows "\<exists>out cols. processImage img colorMode = Inr (out, cols)
      \<and> image_width out = image_width img \<and> image_height out = image_height img
      \<and> length (image_data out) = length (image_data img)
      \<and> distinct cols \<and> set cols \<subseteq> thread_hex ` set (paletteFor colorMode)
      \<and> (\<forall>p < image_width img * image_height img.
            pixelOk colorMode (image_data img) (image_data out) p)"
proof -
  from quantizeLoop_result[of "[]" colorMode "image_data img"] obtain out cols where
    q: "quantizeLoop colorMode (image_data img) [] = Inr (out, cols)" and
    l: "length out = length (image_data img)" and d: "distinct cols" and
    s: "set cols \<subseteq> thread_hex ` set (paletteFor colorMode)" and
    p: "\<forall>p. 4 * p + 3 < length (image_data img) \<longrightarrow> pixelOk colorMode (image_data img) out p"
    by auto
  have "4 * p + 3 < length (image_data img)" if "p < image_width img * image_height img" for p
    using that assms(3) by (simp add: mult.assoc)
  with p have "\<forall>p < image_width img * image_height img. pixelOk colorMode (image_data img) out p"
    by blast
  with assms q l d s show ?thesis
    by (simp add: processImage_def newImageData_def)
qed

lemma pixelOk_triple:
  "pixelOk colorMode d out p \<Longrightarrow>
     \<exists>tc. pixelThreadColor colorMode (d ! (4 * p)) (d ! (4 * p + 1)) (d ! (4 * p + 2)) = Some tc
        \<and> pixelAt out p = threadTriple tc"
  by (auto simp: pixelOk_def pixelAt_def threadTriple_def)

lemma grayValue_nonneg: "0 \<le> grayValue r g b"
  unfolding grayValue_def by (simp add: add_nonneg_nonneg)












text \<open>
  Claim C10. For every image and mode \<open>processImage\<close> returns an image of the same width
  and height in which the RGB of every pixel is the RGB of an entry of the 11-entry
  palette (of one of its first five entries in grayscale mode), and the returned colours
  are hex codes of entries of that palette, without duplicates.
\<close>

theorem processImage_palette:
  assumes "image_width img > 0" and "image_height img > 0"
    and "length (image_data img) = 4 * image_width img * image_height img"
  shows "length THREAD_COLORS = 11 \<and> paletteFor GrayscaleMode = take 5 THREAD_COLORS
     \<and> paletteFor ColorMode = THREAD_COLORS
     \<and> (\<exists>out cols. processImage img colorMode = Inr (out, cols)
          \<and> image_width out = image_width img \<and> image_height out = image_height img
          \<and> length (image_data out) = length (image_data img)
          \<and> (\<forall>p < image_width img * image_height img.
               \<exists>tc \<in> set (paletteFor colorMode). pixelAt (image_data out) p = threadTriple tc)
          \<and> distinct cols
          \<and> (\<forall>c \<in> set cols. \<exists>tc \<in> set (paletteFor colorMode). c = thread_hex tc))"
proof -
  from processImage_result[OF assms, of colorMode] obtain out cols where
    r: "processImage img colorMode = Inr (out, cols)"
       "image_width out = image_width img" "image_height out = image_height img"
       "length (image_data out) = length (image_data img)"
       "distinct cols" "set cols \<subseteq> thread_hex ` set (paletteFor colorMode)" and
    p: "\<forall>p < image_width img * image_height img.
            pixelOk colorMode (image_data img) (image_data out) p"
    by blast
  have px: "\<exists>tc \<in> set (paletteFor colorMode). pixelAt (image_data out) p = threadTriple tc"
    if "p < image_width img * image_height img" for p
  proof -
    from p that have "pixelOk colorMode (image_data img) (image_data out) p" by blast
    from pixelOk_triple[OF this] obtain tc where
      tc: "pixelThreadColor colorMode (image_data img ! (4 * p)) (image_data img ! (4 * p + 1))
             (image_data img ! (4 * p + 2)) = Some tc"
        "pixelAt (image_data out) p = threadTriple tc"
      by blast
    from pixelThreadColor_member[of colorMode "image_data img ! (4 * p)"
        "image_data img ! (4 * p + 1)" "image_data img ! (4 * p + 2)"] tc
    show ?thesis by auto
  qed
  have cs: "\<forall>c \<in> set cols. \<exists>tc \<in> set (paletteFor colorMode). c = thread_hex tc"
    using r(6) by auto
  have "length THREAD_COLORS = 11" by (simp add: THREAD_COLORS_def)
  moreover have "paletteFor GrayscaleMode = take 5 THREAD_COLORS"
    "paletteFor ColorMode = THREAD_COLORS"
    by (simp_all add: paletteFor_def GRAYSCALE_COLORS_def)
  ultimately show ?thesis using r px cs by blast
qed

theorem processImage_palette_witness:
  "image_width twoPixels > 0 \<and> image_height twoPixels > 0
   \<and> length (image_data twoPixels) = 4 * image_width twoPixels * image_height twoPixels
   \<and> (\<exists>out cols. processImage twoPixels ColorMode = Inr (out, cols)
        \<and> image_width out = 2 \<and> image_height out = 1 \<and> length (image_data out) = 8
        \<and> (\<exists>tc \<in> set THREAD_COLORS. pixelAt (image_data out) 0 = threadTriple tc)
        \<and> (\<exists>tc \<in> set THREAD_COLORS. pixelAt (image_data out) 1 = threadTriple tc)
        \<and> distinct cols)"
proof -
  have a: "image_width twoPixels > 0" "image_height twoPixels > 0"
     "length (image_data twoPixels) = 4 * image_width twoPixels * image_height twoPixels"
    by (simp_all add: twoPixels_def)
  have w: "image_width twoPixels = 2" "image_height twoPixels = 1"
    "length (image_data twoPixels) = 8" by (simp_all add: twoPixels_def)
  from processImage_palette[OF a, of ColorMode] obtain out cols where
    r: "processImage twoPixels ColorMode = Inr (out, cols)"
       "image_width out = 2" "image_height out = 1" "length (image_data out) = 8"
       "distinct cols" and
    p: "\<forall>p < 2. \<exists>tc \<in> set THREAD_COLORS. pixelAt (image_data out) p = threadTriple tc"
    unfolding w by (auto simp: paletteFor_def)
  from p have "\<exists>tc \<in> set THREAD_COLORS. pixelAt (image_data out) 0 = threadTriple tc"
    "\<exists>tc \<in> set THREAD_COLORS. pixelAt (image_data out) 1 = threadTriple tc" by simp_all
  with a r show ?thesis by blast
qed

section \<open>Scanline fill and stitch colours\<close>

lemma sqrt25: "sqrt 25 = 5"
  using real_sqrt_abs[of 5] by simp

lemma zigzag_fill:
  "generateFillStitches zigzag \<lparr>fill_angle = 0, fill_spacing = 5, fill_color = Some ''#000000''\<rparr>
     = Some [stitchAt (1 / 2) 2 Jump (Some ''#000000''), stitchAt (3 / 2) 2 Normal (Some ''#000000'')]"
  by (simp add: generateFillStitches_def zigzag_def StitchGenerator_calculateBounds_def sqrt25
     Let_def upto.simps lineStitches_def scanline_def findIntersections_def lineIntersection_def
     List.map_filter_simps sortIntersections_def segmentSteps_def segmentStitches_def stitchAt_def)

lemma zigzag_line:
  "scanline 1 0 5 \<lparr>pt_x = 3 / 2, pt_y = 2\<rparr> 5 0 = (\<lparr>pt_x = - (7 / 2), pt_y = 2\<rparr>, \<lparr>pt_x = 13 / 2, pt_y = 2\<rparr>)"
  by (simp add: scanline_def)

lemma zigzag_intersections:
  "findIntersections \<lparr>pt_x = - (7 / 2), pt_y = 2\<rparr> \<lparr>pt_x = 13 / 2, pt_y = 2\<rparr> zigzag
     = [\<lparr>pt_x = 1 / 2, pt_y = 2\<rparr>, \<lparr>pt_x = 3 / 2, pt_y = 2\<rparr>, \<lparr>pt_x = 5 / 2, pt_y = 2\<rparr>]"
  by (simp add: zigzag_def findIntersections_def lineIntersection_def List.map_filter_simps)

lemma zigzag_lineStitches:
  "lineStitches zigzag 5 (Some ''#000000'') 1 0
      (\<lparr>pt_x = - (7 / 2), pt_y = 2\<rparr>, \<lparr>pt_x = 13 / 2, pt_y = 2\<rparr>) False
     = Some [stitchAt (1 / 2) 2 Jump (Some ''#000000''), stitchAt (3 / 2) 2 Normal (Some ''#000000'')]"
  by (simp add: lineStitches_def zigzag_intersections sortIntersections_def segmentSteps_def
      segmentStitches_def stitchAt_def)

text \<open>
  Claim C5 as stated fails on the contour \<open>zigzag\<close> with fill angle 0 and spacing 5:
  scanline 0 meets the contour in three points, an odd number, and is not skipped: a Jump
  to the first intersection and a Normal stitch to the second are emitted for it, and
  they are the whole output of the fill.
\<close>

theorem odd_scanline_emits_stitches:
  "scanline 1 0 5 \<lparr>pt_x = 3 / 2, pt_y = 2\<rparr> 5 0 = (\<lparr>pt_x = - (7 / 2), pt_y = 2\<rparr>, \<lparr>pt_x = 13 / 2, pt_y = 2\<rparr>)
   \<and> length (findIntersections \<lparr>pt_x = - (7 / 2), pt_y = 2\<rparr> \<lparr>pt_x = 13 / 2, pt_y = 2\<rparr> zigzag) = 3
   \<and> lineStitches zigzag 5 (Some ''#000000'') 1 0
        (\<lparr>pt_x = - (7 / 2), pt_y = 2\<rparr>, \<lparr>pt_x = 13 / 2, pt_y = 2\<rparr>) False
       = Some [stitchAt (1 / 2) 2 Jump (Some ''#000000''), stitchAt (3 / 2) 2 Normal (Some ''#000000'')]
   \<and> generateFillStitches zigzag
        \<lparr>fill_angle = 0, fill_spacing = 5, fill_color = Some ''#000000''\<rparr>
       = Some [stitchAt (1 / 2) 2 Jump (Some ''#000000''), stitchAt (3 / 2) 2 Normal (Some ''#000000'')]"
  using zigzag_line zigzag_lineStitches zigzag_fill by (simp add: zigzag_intersections)

lemma pairStitches_pairsOf:
  "pairStitches spacing c xs = concat (map (pairOutput spacing c) (pairsOf xs))"
  by (induction spacing c xs rule: pairStitches.induct) (simp_all add: pairOutput_def)

lemma length_pairsOf: "length (pairsOf xs) = length xs div 2"
  by (induction xs rule: pairsOf.induct) simp_all

lemma jumps_pairOutput:
  "filter (\<lambda>s. stitch_type s = Jump) (pairOutput spacing c pr)
     = [stitchAt (pt_x (fst pr)) (pt_y (fst pr)) Jump c]"
  by (cases pr) (simp add: pairOutput_def segmentStitches_def stitchAt_def filter_empty_conv Let_def)

lemma jumps_pairStitches:
  "filter (\<lambda>s. stitch_type s = Jump) (pairStitches spacing c xs)
     = map (\<lambda>pr. stitchAt (pt_x (fst pr)) (pt_y (fst pr)) Jump c) (pairsOf xs)"
  unfolding pairStitches_pairsOf
  by (induction xs rule: pairsOf.induct) (simp_all add: jumps_pairOutput)

lemma length_sortIntersections:
  "length (sortIntersections dirX dirY lineStart isReversed xs) = length xs"
  by (simp add: sortIntersections_def Let_def)

text \<open>
  Claim C5, amended: a scanline with fewer than two intersections is skipped entirely;
  on a scanline with \<open>n \<ge> 2\<close> intersections stitches are emitted, and only between the
  \<open>n div 2\<close> consecutive pairs of the sorted intersections (one Jump to the first point
  of each pair, then the Normal stitches towards the second), so that for an odd \<open>n\<close> the
  last intersection is left out; the parity of \<open>n\<close> is not tested.
\<close>

theorem scanline_pairs:
  "(length (findIntersections lineStart lineEnd contours) < 2 \<longrightarrow>
      lineStitches contours spacing c dirX dirY (lineStart, lineEnd) isReversed = None)
   \<and> (2 \<le> length (findIntersections lineStart lineEnd contours) \<longrightarrow>
      (\<exists>out. lineStitches contours spacing c dirX dirY (lineStart, lineEnd) isReversed = Some out
         \<and> out \<noteq> []
         \<and> out = concat (map (pairOutput spacing c)
                   (pairsOf (sortIntersections dirX dirY lineStart isReversed
                               (findIntersections lineStart lineEnd contours))))
         \<and> length (pairsOf (sortIntersections dirX dirY lineStart isReversed
                               (findIntersections lineStart lineEnd contours)))
             = length (findIntersections lineStart lineEnd contours) div 2
         \<and> length (filter (\<lambda>s. stitch_type s = Jump) out)
             = length (findIntersections lineStart lineEnd contours) div 2))"
proof (intro conjI impI)
  assume "length (findIntersections lineStart lineEnd contours) < 2"
  then show "lineStitches contours spacing c dirX dirY (lineStart, lineEnd) isReversed = None"
    by (simp add: lineStitches_def)
next
  let ?ints = "findIntersections lineStart lineEnd contours"
  let ?sorted = "sortIntersections dirX dirY lineStart isReversed ?ints"
  assume n: "2 \<le> length ?ints"
  then have l: "lineStitches contours spacing c dirX dirY (lineStart, lineEnd) isReversed
      = Some (pairStitches spacing c ?sorted)"
    by (simp add: lineStitches_def)
  have len: "length (pairsOf ?sorted) = length ?ints div 2"
    by (simp add: length_pairsOf length_sortIntersections)
  have j: "length (filter (\<lambda>s. stitch_type s = Jump) (pairStitches spacing c ?sorted))
      = length ?ints div 2"
    by (simp add: jumps_pairStitches len)
  from n have "0 < length ?ints div 2" by simp
  with j have ne: "pairStitches spacing c ?sorted \<noteq> []" by auto
  from l ne len j pairStitches_pairsOf[of spacing c ?sorted]
  show "\<exists>out. lineStitches contours spacing c dirX dirY (lineStart, lineEnd) isReversed = Some out
         \<and> out \<noteq> []
         \<and> out = concat (map (pairOutput spacing c) (pairsOf ?sorted))
         \<and> length (pairsOf ?sorted) = length ?ints div 2
         \<and> length (filter (\<lambda>s. stitch_type s = Jump) out) = length ?ints div 2"
    by simp
qed

theorem scanline_pairs_witness:
  "2 \<le> length (findIntersections \<lparr>pt_x = - (7 / 2), pt_y = 2\<rparr> \<lparr>pt_x = 13 / 2, pt_y = 2\<rparr> zigzag)
   \<and> (\<exists>out. lineStitches zigzag 5 (Some ''#000000'') 1 0
               (\<lparr>pt_x = - (7 / 2), pt_y = 2\<rparr>, \<lparr>pt_x = 13 / 2, pt_y = 2\<rparr>) False = Some out
        \<and> out \<noteq> []
        \<and> length (filter (\<lambda>s. stitch_type s = Jump) out) = 1)
   \<and> length (findIntersections \<lparr>pt_x = - (7 / 2), pt_y = -3\<rparr> \<lparr>pt_x = 13 / 2, pt_y = -3\<rparr> zigzag) < 2
   \<and> lineStitches zigzag 5 (Some ''#000000'') 1 0
               (\<lparr>pt_x = - (7 / 2), pt_y = -3\<rparr>, \<lparr>pt_x = 13 / 2, pt_y = -3\<rparr>) False = None"
proof -
  have a: "2 \<le> length (findIntersections \<lparr>pt_x = - (7 / 2), pt_y = 2\<rparr> \<lparr>pt_x = 13 / 2, pt_y = 2\<rparr> zigzag)"
    by (simp add: zigzag_intersections)
  have b: "length (findIntersections \<lparr>pt_x = - (7 / 2), pt_y = -3\<rparr> \<lparr>pt_x = 13 / 2, pt_y = -3\<rparr> zigzag) < 2"
    by (simp add: zigzag_def findIntersections_def lineIntersection_def List.map_filter_simps)
  from scanline_pairs[of "\<lparr>pt_x = - (7 / 2), pt_y = 2\<rparr>" "\<lparr>pt_x = 13 / 2, pt_y = 2\<rparr>" zigzag
      5 "Some ''#000000''" 1 0 False] a
  have c: "\<exists>out. lineStitches zigzag 5 (Some ''#000000'') 1 0
               (\<lparr>pt_x = - (7 / 2), pt_y = 2\<rparr>, \<lparr>pt_x = 13 / 2, pt_y = 2\<rparr>) False = Some out
        \<and> out \<noteq> []
        \<and> length (filter (\<lambda>s. stitch_type s = Jump) out) = 1"
    by (auto simp: zigzag_intersections)
  from scanline_pairs[of "\<lparr>pt_x = - (7 / 2), pt_y = -3\<rparr>" "\<lparr>pt_x = 13 / 2, pt_y = -3\<rparr>" zigzag
      5 "Some ''#000000''" 1 0 False] b
  have d: "lineStitches zigzag 5 (Some ''#000000'') 1 0
               (\<lparr>pt_x = - (7 / 2), pt_y = -3\<rparr>, \<lparr>pt_x = 13 / 2, pt_y = -3\<rparr>) False = None"
    by blast
  from a b c d show ?thesis by blast
qed

lemma segmentStitches_color:
  "s \<in> set (segmentStitches steps a b c) \<Longrightarrow> stitch_color s = c"
  by (auto simp: segmentStitches_def stitchAt_def Let_def)

lemma pairStitches_color:
  "s \<in> set (pairStitches spacing c xs) \<Longrightarrow> stitch_color s = c"
  by (induction spacing c xs rule: pairStitches.induct)
     (auto simp: stitchAt_def dest: segmentStitches_color)

lemma lineStitches_color:
  "lineStitches contours spacing c dirX dirY line isReversed = Some out \<Longrightarrow>
     s \<in> set out \<Longrightarrow> stitch_color s = c"
  by (cases line) (auto simp: lineStitches_def Let_def split: if_splits dest: pairStitches_color)

lemma fillLoop_color:
  "s \<in> set (fillLoop contours spacing c dirX dirY diagonal center lines isReversed) \<Longrightarrow>
     stitch_color s = c"
proof (induction lines arbitrary: isReversed)
  case Nil
  then show ?case by simp
next
  case (Cons i lines)
  then show ?case
    by (auto split: option.splits dest: lineStitches_color)
qed

lemma generateFillStitches_color:
  "generateFillStitches contours settings = Some out \<Longrightarrow> s \<in> set out \<Longrightarrow>
     stitch_color s = fill_color settings"
  by (auto simp: generateFillStitches_def Let_def split: option.splits if_splits
           dest: fillLoop_color)

lemma outlineSegments_color:
  "s \<in> set (outlineSegments spacing c points) \<Longrightarrow> stitch_color s = c"
  by (induction spacing c points rule: outlineSegments.induct)
     (auto simp: Let_def split: if_splits dest: segmentStitches_color)

lemma generateOutlineStitches_color:
  "s \<in> set (generateOutlineStitches points spacing c) \<Longrightarrow> stitch_color s = c"
  by (auto simp: generateOutlineStitches_def stitchAt_def split: list.splits
           dest: outlineSegments_color)

text \<open>Every stitch that \<open>generateStitches\<close> returns has the colour \<open>settings.color\<close>.\<close>

lemma generateStitches_color:
  assumes "generateStitches contours settings = Some out" and "s \<in> set out"
  shows "stitch_color s = gen_color settings"
proof -
  let ?c = "gen_color settings" and ?sp = "stitchSpacing settings"
  let ?initial = "case contours of
                       (p # _) # _ \<Rightarrow> [stitchAt (pt_x p) (pt_y p) Jump ?c]
                     | _ \<Rightarrow> []"
  let ?outline = "concat (map (\<lambda>contour. generateOutlineStitches contour ?sp ?c) contours)"
  from assms(1) obtain underlayStitches fillStitches where
    u: "(if gen_underlay settings
             then generateFillStitches contours
                    \<lparr>fill_angle = underlayAngle (gen_angle settings),
                     fill_spacing = ?sp * 2, fill_color = ?c\<rparr>
             else Some []) = Some underlayStitches" and
    f: "generateFillStitches contours
          \<lparr>fill_angle = gen_angle settings, fill_spacing = ?sp, fill_color = ?c\<rparr> = Some fillStitches" and
    o: "out = (case ?initial @ underlayStitches @ fillStitches @ ?outline of
                 [] \<Rightarrow> []
               | _ # _ \<Rightarrow> (?initial @ underlayStitches @ fillStitches @ ?outline)
                    @ [(last (?initial @ underlayStitches @ fillStitches @ ?outline))\<lparr>stitch_type := Jump\<rparr>])"
    by (auto simp: generateStitches_def Let_def split: option.splits)
  let ?all = "?initial @ underlayStitches @ fillStitches @ ?outline"
  have i: "\<And>t. t \<in> set ?initial \<Longrightarrow> stitch_color t = ?c"
    by (auto simp: stitchAt_def split: list.splits)
  have uu: "\<And>t. t \<in> set underlayStitches \<Longrightarrow> stitch_color t = ?c"
    using u generateFillStitches_color by (fastforce split: if_splits)
  have ff: "\<And>t. t \<in> set fillStitches \<Longrightarrow> stitch_color t = ?c"
    using f generateFillStitches_color by fastforce
  have oo: "\<And>t. t \<in> set ?outline \<Longrightarrow> stitch_color t = ?c"
    by (auto dest: generateOutlineStitches_color)
  have all: "stitch_color t = ?c" if "t \<in> set ?all" for t
  proof -
    from that consider "t \<in> set ?initial" | "t \<in> set underlayStitches"
      | "t \<in> set fillStitches" | "t \<in> set ?outline"
      by (simp only: set_append Un_iff) blast
    then show ?thesis
      by cases (rule i uu ff oo, assumption)+
  qed
  show ?thesis
  proof (cases ?all)
    case Nil
    with o assms(2) show ?thesis by simp
  next
    case (Cons a as)
    then have ne: "?all \<noteq> []" by simp
    from o Cons have "out = ?all @ [(last ?all)\<lparr>stitch_type := Jump\<rparr>]" by simp
    with assms(2) consider "s \<in> set ?all" | "s = (last ?all)\<lparr>stitch_type := Jump\<rparr>" by auto
    then show ?thesis
    proof cases
      case 1
      then show ?thesis by (rule all)
    next
      case 2
      from ne have "last ?all \<in> set ?all" by (rule last_in_set)
      from all[OF this] 2 show ?thesis by simp
    qed
  qed
qed

lemma stitchSpacing_pos: "0 < stitchSpacing settings"
  by (simp add: stitchSpacing_def Let_def less_max_iff_disj)

lemma generateFillStitches_returns:
  "concat contours \<noteq> [] \<Longrightarrow> fill_spacing settings \<noteq> 0 \<Longrightarrow>
     \<exists>out. generateFillStitches contours settings = Some out"
  by (auto simp: generateFillStitches_def Let_def StitchGenerator_calculateBounds_def
           split: list.splits)

text \<open>With a first contour that has a point, \<open>generateStitches\<close> returns, and its first
  stitch is the jump to that point.\<close>

lemma generateStitches_returns:
  assumes "contours = (p # ps) # cs"
  shows "\<exists>rest. generateStitches contours settings
           = Some (stitchAt (pt_x p) (pt_y p) Jump (gen_color settings) # rest)"
proof -
  have ne: "concat contours \<noteq> []" using assms by simp
  have sp: "stitchSpacing settings \<noteq> 0" "stitchSpacing settings * 2 \<noteq> 0"
    using stitchSpacing_pos[of settings] by simp_all
  from generateFillStitches_returns[OF ne, of
      "\<lparr>fill_angle = underlayAngle (gen_angle settings),
        fill_spacing = stitchSpacing settings * 2, fill_color = gen_color settings\<rparr>"] sp
  obtain u where u: "generateFillStitches contours
      \<lparr>fill_angle = underlayAngle (gen_angle settings),
        fill_spacing = stitchSpacing settings * 2, fill_color = gen_color settings\<rparr> = Some u"
    by auto
  from generateFillStitches_returns[OF ne, of
      "\<lparr>fill_angle = gen_angle settings,
        fill_spacing = stitchSpacing settings, fill_color = gen_color settings\<rparr>"] sp
  obtain f where f: "generateFillStitches contours
      \<lparr>fill_angle = gen_angle settings,
        fill_spacing = stitchSpacing settings, fill_color = gen_color settings\<rparr> = Some f"
    by auto
  show ?thesis
    using u f
    by (cases "gen_underlay settings") (simp_all add: generateStitches_def Let_def assms)
qed

text \<open>
  Claim C6, at the contours \<open>zigzag\<close> with the colours \<open>[#000000]\<close>: the pipeline creates
  a pattern, each of its stitches has the colour \<open>undefined\<close>, and so none of the stitch
  colours is an element of \<open>pattern.colors\<close>.
\<close>

theorem pipeline_stitches_without_colour:
  "\<exists>pattern. execute_createPattern pipelineDefaults [''#000000''] zigzag = Some (Inr pattern)
      \<and> stitches pattern \<noteq> []
      \<and> stitch_type (hd (stitches pattern)) = Jump
      \<and> colors pattern = [''#000000'']
      \<and> stitch_color ` set (stitches pattern) = {None}
      \<and> stitch_color ` set (stitches pattern) \<inter> Some ` set (colors pattern) = {}"
proof -
  let ?gs = "\<lparr>gen_width = ps_width pipelineDefaults,
                   gen_height = ps_height pipelineDefaults,
                   gen_density = ps_density pipelineDefaults,
                   gen_angle = ps_fillAngle pipelineDefaults,
                   gen_underlay = ps_useUnderlay pipelineDefaults,
                   gen_pullCompensation = ps_pullCompensation pipelineDefaults,
                   gen_color = None\<rparr>"
  have z: "zigzag = (\<lparr>pt_x = 0, pt_y = 0\<rparr> # [\<lparr>pt_x = 1, pt_y = 4\<rparr>,
              \<lparr>pt_x = 2, pt_y = 0\<rparr>, \<lparr>pt_x = 3, pt_y = 4\<rparr>]) # []"
    by (simp add: zigzag_def)
  from generateStitches_returns[OF z, of ?gs] obtain rest where
    g: "generateStitches zigzag ?gs = Some (stitchAt 0 0 Jump None # rest)" by auto
  have c: "\<forall>s \<in> set (stitchAt 0 0 Jump None # rest). stitch_color s = None"
    using generateStitches_color[OF g] by simp
  have "execute_createPattern pipelineDefaults [''#000000''] zigzag
      = Some (Inr \<lparr>stitches = stitchAt 0 0 Jump None # rest, colors = [''#000000''],
                   dimensions = \<lparr>width = Fin 100, height = Fin 100\<rparr>\<rparr>)"
    by (simp add: execute_createPattern_def g) (simp add: zigzag_def pipelineDefaults_def)
  moreover from c have "stitch_color ` set (stitchAt 0 0 Jump None # rest) = {None}"
    by auto
  ultimately show ?thesis by (auto simp: stitchAt_def)
qed

end
